theory Spec2Isabelle
  imports Main "HOL-Library.Word"
begin

section \<open>Domain entities (package domain)\<close>

text \<open>
  A Go \<^verbatim>\<open>error\<close> is represented by the text of its \<^verbatim>\<open>Error()\<close> method; the nil error
  is \<open>None\<close>. Wrapping with \<^verbatim>\<open>fmt.Errorf("...: %w", err)\<close> prefixes the text.
  A \<^verbatim>\<open>time.Time\<close> is an instant on a discrete time line.
\<close>

type_synonym error = string
type_synonym time = nat

text \<open>The string-typed enumerations of the domain package, with their constants.\<close>

type_synonym ConversationStatus = string
type_synonym Channel = string
type_synonym SenderType = string
type_synonym ContentType = string
type_synonym AttachmentType = string

definition ConversationStatusActive :: ConversationStatus where
  "ConversationStatusActive = ''active''"
definition ConversationStatusClosed :: ConversationStatus where
  "ConversationStatusClosed = ''closed''"
definition ConversationStatusArchived :: ConversationStatus where
  "ConversationStatusArchived = ''archived''"

definition ChannelWhatsApp :: Channel where "ChannelWhatsApp = ''whatsapp''"
definition ChannelWeb :: Channel where "ChannelWeb = ''web''"
definition ChannelMessenger :: Channel where "ChannelMessenger = ''messenger''"
definition ChannelInstagram :: Channel where "ChannelInstagram = ''instagram''"

definition SenderTypeUser :: SenderType where "SenderTypeUser = ''user''"
definition SenderTypeBot :: SenderType where "SenderTypeBot = ''bot''"
definition SenderTypeSystem :: SenderType where "SenderTypeSystem = ''system''"

definition ContentTypeText :: ContentType where "ContentTypeText = ''text''"
definition ContentTypeImage :: ContentType where "ContentTypeImage = ''image''"
definition ContentTypeVideo :: ContentType where "ContentTypeVideo = ''video''"
definition ContentTypeAudio :: ContentType where "ContentTypeAudio = ''audio''"
definition ContentTypeFile :: ContentType where "ContentTypeFile = ''file''"

text \<open>
  \<^verbatim>\<open>JSONB\<close> is \<^verbatim>\<open>map[string]interface{}\<close>; the bag is kept as its key/value pairs, each
  value as its JSON text.
\<close>

type_synonym JSONB = "(string \<times> string) list"

record Attachment =
  att_ID :: string
  att_MessageID :: string
  att_URL :: string
  att_Type :: AttachmentType
  att_Size :: "64 word"
  att_Filename :: string
  att_CreatedAt :: time

record Message =
  msg_ID :: string
  msg_ConversationID :: string
  msg_SenderType :: SenderType
  msg_SenderID :: string
  msg_Content :: string
  msg_ContentType :: ContentType
  msg_Metadata :: JSONB
  msg_Timestamp :: time
  msg_Attachments :: "Attachment list"

record Conversation =
  conv_ID :: string
  conv_UserID :: string
  conv_Channel :: Channel
  conv_Status :: ConversationStatus
  conv_CreatedAt :: time
  conv_UpdatedAt :: time
  conv_Messages :: "Message list"

record MessageEvent =
  ev_Type :: string
  ev_ConversationID :: string
  ev_Message :: Message
  ev_Timestamp :: time

record PaginationParams =
  pg_Limit :: int
  pg_Offset :: int
  pg_SortBy :: string
  pg_Order :: string

section \<open>Collaborator interfaces\<close>

text \<open>
  The domain service is written against Go interfaces. Each interface is a record of
  functions over the state of the system behind it: \<open>'d\<close> is the state of the record
  store, \<open>'r\<close> the state behind the cache and the event publisher. A method takes its
  arguments and the state and returns its Go results and the new state; a result
  \<^verbatim>\<open>(*T, error)\<close> that the caller only tests with \<^verbatim>\<open>err != nil\<close> is a sum with the error on
  the left. Only the methods that the modelled operations call are fields; the cache
  interface is complete.
\<close>

record 'd ConversationRepository =
  convRepo_Create :: "Conversation \<Rightarrow> 'd \<Rightarrow> error option \<times> 'd"
  convRepo_GetByID :: "string \<Rightarrow> 'd \<Rightarrow> (error + Conversation) \<times> 'd"
  convRepo_Update :: "Conversation \<Rightarrow> 'd \<Rightarrow> error option \<times> 'd"

record 'd MessageRepository =
  msgRepo_Create :: "Message \<Rightarrow> 'd \<Rightarrow> error option \<times> 'd"
  msgRepo_GetByID :: "string \<Rightarrow> 'd \<Rightarrow> (error + Message) \<times> 'd"
  msgRepo_GetByConversationID ::
    "string \<Rightarrow> PaginationParams \<Rightarrow> 'd \<Rightarrow> (error + Message list) \<times> 'd"

record 'd AttachmentRepository =
  attRepo_GetByID :: "string \<Rightarrow> 'd \<Rightarrow> (error + Attachment) \<times> 'd"
  attRepo_GetByMessageID :: "string \<Rightarrow> 'd \<Rightarrow> (error + Attachment list) \<times> 'd"

text \<open>
  \<^verbatim>\<open>CacheService.GetConversation\<close> returns the pointer and the error as a pair, because
  its caller tests both (\<^verbatim>\<open>err == nil && cached != nil\<close>).
\<close>

record 'r CacheService =
  cache_GetConversation :: "string \<Rightarrow> 'r \<Rightarrow> (Conversation option \<times> error option) \<times> 'r"
  cache_SetConversation :: "Conversation \<Rightarrow> 'r \<Rightarrow> error option \<times> 'r"
  cache_DeleteConversation :: "string \<Rightarrow> 'r \<Rightarrow> error option \<times> 'r"
  cache_GetMessages :: "string \<Rightarrow> 'r \<Rightarrow> (Message list option \<times> error option) \<times> 'r"
  cache_SetMessages :: "string \<Rightarrow> Message list \<Rightarrow> 'r \<Rightarrow> error option \<times> 'r"
  cache_DeleteMessages :: "string \<Rightarrow> 'r \<Rightarrow> error option \<times> 'r"

record 'r EventPublisher =
  pub_PublishMessageEvent :: "MessageEvent \<Rightarrow> 'r \<Rightarrow> error option \<times> 'r"

section \<open>The world of one service instance\<close>

text \<open>
  The logger (package \<^verbatim>\<open>pkg/logger\<close>) appends a line to the log. \<^verbatim>\<open>time.Now()\<close> and
  \<^verbatim>\<open>uuid.New()\<close> read the next value of a supply that the environment fixes.
\<close>

datatype log_entry =
  LogError string error
| LogInfo string "(string \<times> string) list"

record ('d, 'r) world =
  db :: 'd
  kv :: 'r
  logs :: "log_entry list"
  now_supply :: "nat \<Rightarrow> time"
  now_reads :: nat
  uuid_supply :: "nat \<Rightarrow> string"
  uuid_reads :: nat

definition logger_Error :: "string \<Rightarrow> error \<Rightarrow> ('d, 'r) world \<Rightarrow> ('d, 'r) world" where
  "logger_Error msg err w = w\<lparr>logs := logs w @ [LogError msg err]\<rparr>"

definition logger_Info ::
  "string \<Rightarrow> (string \<times> string) list \<Rightarrow> ('d, 'r) world \<Rightarrow> ('d, 'r) world" where
  "logger_Info msg kvs w = w\<lparr>logs := logs w @ [LogInfo msg kvs]\<rparr>"

definition time_Now :: "('d, 'r) world \<Rightarrow> time \<times> ('d, 'r) world" where
  "time_Now w = (now_supply w (now_reads w), w\<lparr>now_reads := Suc (now_reads w)\<rparr>)"

definition uuid_New :: "('d, 'r) world \<Rightarrow> string \<times> ('d, 'r) world" where
  "uuid_New w = (uuid_supply w (uuid_reads w), w\<lparr>uuid_reads := Suc (uuid_reads w)\<rparr>)"

section \<open>The messaging domain service (messagingService)\<close>

text \<open>
  The struct \<^verbatim>\<open>messagingService\<close>. The cache and the event publisher are tested against
  nil before use, hence optional.
\<close>

record ('d, 'r) messagingService =
  conversationRepo :: "'d ConversationRepository"
  messageRepo :: "'d MessageRepository"
  attachmentRepo :: "'d AttachmentRepository"
  eventPublisher :: "'r EventPublisher option"
  cacheService :: "'r CacheService option"

record SendMessageRequest =
  req_ConversationID :: string
  req_SenderType :: SenderType
  req_SenderID :: string
  req_Content :: string
  req_ContentType :: ContentType
  req_Metadata :: JSONB

text \<open>
  \<^verbatim>\<open>GetConversation\<close>: the cache is asked first and its answer is used only when it is a
  record without error whose owner is the requester; otherwise the store is read, the
  owner is checked, and the cache is set (its error dropped).
\<close>

definition GetConversation ::
  "('d, 'r) messagingService \<Rightarrow> string \<Rightarrow> string \<Rightarrow> ('d, 'r) world
    \<Rightarrow> (error + Conversation) \<times> ('d, 'r) world" where
  "GetConversation s convID userID w =
    (let (hit, w1) =
       (case cacheService s of
          None \<Rightarrow> (None, w)
        | Some cs \<Rightarrow>
            (case cache_GetConversation cs convID (kv w) of
               ((cached, err), r') \<Rightarrow>
                 (if err = None \<and> cached \<noteq> None \<and> conv_UserID (the cached) = userID
                  then cached else None,
                  w\<lparr>kv := r'\<rparr>)))
     in case hit of
          Some cached \<Rightarrow> (Inr cached, w1)
        | None \<Rightarrow>
            (case convRepo_GetByID (conversationRepo s) convID (db w1) of
               (Inl err, d') \<Rightarrow>
                 (Inl (''failed to get conversation: '' @ err), w1\<lparr>db := d'\<rparr>)
             | (Inr conversation, d') \<Rightarrow>
                 (let w2 = w1\<lparr>db := d'\<rparr> in
                  if conv_UserID conversation \<noteq> userID
                  then (Inl ''conversation not found or access denied'', w2)
                  else (case cacheService s of
                          None \<Rightarrow> (Inr conversation, w2)
                        | Some cs \<Rightarrow>
                            (Inr conversation,
                             w2\<lparr>kv := snd (cache_SetConversation cs conversation (kv w2))\<rparr>)))))"

text \<open>
  \<^verbatim>\<open>CreateConversation\<close>: a fresh identity, status active, both timestamps read from
  the clock (two readings).
\<close>

definition CreateConversation ::
  "('d, 'r) messagingService \<Rightarrow> string \<Rightarrow> Channel \<Rightarrow> ('d, 'r) world
    \<Rightarrow> (error + Conversation) \<times> ('d, 'r) world" where
  "CreateConversation s userID channel w =
    (let (newID, w1) = uuid_New w;
         (created, w2) = time_Now w1;
         (updated, w3) = time_Now w2;
         conversation = \<lparr>conv_ID = newID, conv_UserID = userID, conv_Channel = channel,
           conv_Status = ConversationStatusActive, conv_CreatedAt = created,
           conv_UpdatedAt = updated, conv_Messages = []\<rparr>
     in case convRepo_Create (conversationRepo s) conversation (db w3) of
          (Some err, d') \<Rightarrow>
            (Inl (''failed to create conversation: '' @ err),
             logger_Error ''Failed to create conversation'' err (w3\<lparr>db := d'\<rparr>))
        | (None, d') \<Rightarrow>
            (Inr conversation,
             logger_Info ''Conversation created''
               [(''conversation_id'', newID), (''user_id'', userID), (''channel'', channel)]
               (w3\<lparr>db := d'\<rparr>)))"

text \<open>
  \<^verbatim>\<open>UpdateConversationStatus\<close>: the conversation that \<^verbatim>\<open>GetConversation\<close> returned (from
  the cache or from the store) gets the new status and the clock's time and is written
  to the store; then the cache entry is deleted, the error of the deletion dropped.
\<close>

definition UpdateConversationStatus ::
  "('d, 'r) messagingService \<Rightarrow> string \<Rightarrow> ConversationStatus \<Rightarrow> string \<Rightarrow> ('d, 'r) world
    \<Rightarrow> error option \<times> ('d, 'r) world" where
  "UpdateConversationStatus s convID status userID w =
    (case GetConversation s convID userID w of
       (Inl err, w1) \<Rightarrow> (Some err, w1)
     | (Inr found, w1) \<Rightarrow>
         (let (now, w2) = time_Now w1;
              conversation = found\<lparr>conv_Status := status, conv_UpdatedAt := now\<rparr>
          in case convRepo_Update (conversationRepo s) conversation (db w2) of
               (Some err, d') \<Rightarrow>
                 (Some (''failed to update conversation: '' @ err), w2\<lparr>db := d'\<rparr>)
             | (None, d') \<Rightarrow>
                 (let w3 = w2\<lparr>db := d'\<rparr>;
                      w4 = (case cacheService s of
                              None \<Rightarrow> w3
                            | Some cs \<Rightarrow>
                                w3\<lparr>kv := snd (cache_DeleteConversation cs convID (kv w3))\<rparr>)
                  in (None,
                      logger_Info ''Conversation status updated''
                        [(''conversation_id'', convID), (''status'', status),
                         (''user_id'', userID)] w4))))"

text \<open>
  \<^verbatim>\<open>SendMessage\<close>: ownership check with the sender as the acting user, construction of
  the message, store write, then the event; an error of the publisher is logged only.
\<close>

definition SendMessage ::
  "('d, 'r) messagingService \<Rightarrow> SendMessageRequest \<Rightarrow> ('d, 'r) world
    \<Rightarrow> (error + Message) \<times> ('d, 'r) world" where
  "SendMessage s req w =
    (case GetConversation s (req_ConversationID req) (req_SenderID req) w of
       (Inl err, w1) \<Rightarrow> (Inl err, w1)
     | (Inr _, w1) \<Rightarrow>
         (let (newID, w2) = uuid_New w1;
              (now, w3) = time_Now w2;
              message = \<lparr>msg_ID = newID, msg_ConversationID = req_ConversationID req,
                msg_SenderType = req_SenderType req, msg_SenderID = req_SenderID req,
                msg_Content = req_Content req, msg_ContentType = req_ContentType req,
                msg_Metadata = req_Metadata req, msg_Timestamp = now,
                msg_Attachments = []\<rparr>
          in case msgRepo_Create (messageRepo s) message (db w3) of
               (Some err, d') \<Rightarrow>
                 (Inl (''failed to create message: '' @ err),
                  logger_Error ''Failed to create message'' err (w3\<lparr>db := d'\<rparr>))
             | (None, d') \<Rightarrow>
                 (let w4 = w3\<lparr>db := d'\<rparr>;
                      w6 = (case eventPublisher s of
                              None \<Rightarrow> w4
                            | Some p \<Rightarrow>
                                (let (now2, w5) = time_Now w4;
                                     event = \<lparr>ev_Type = ''message.received'',
                                       ev_ConversationID = msg_ConversationID message,
                                       ev_Message = message, ev_Timestamp = now2\<rparr>
                                 in case pub_PublishMessageEvent p event (kv w5) of
                                      (Some err, r') \<Rightarrow>
                                        logger_Error ''Failed to publish message event'' err
                                          (w5\<lparr>kv := r'\<rparr>)
                                    | (None, r') \<Rightarrow> w5\<lparr>kv := r'\<rparr>))
                  in (Inr message,
                      logger_Info ''Message sent''
                        [(''message_id'', msg_ID message),
                         (''conversation_id'', msg_ConversationID message),
                         (''sender_id'', msg_SenderID message),
                         (''content_type'', msg_ContentType message)] w6))))"

text \<open>
  The loop of \<^verbatim>\<open>GetMessages\<close> over the page: the attachments of each message are
  loaded in turn; on an error the line is logged and the loop continues with the next
  message, the current one left as the repository returned it.
\<close>

fun loadAttachments ::
  "('d, 'r) messagingService \<Rightarrow> Message list \<Rightarrow> ('d, 'r) world
    \<Rightarrow> Message list \<times> ('d, 'r) world" where
  "loadAttachments s [] w = ([], w)"
| "loadAttachments s (m # ms) w =
    (case attRepo_GetByMessageID (attachmentRepo s) (msg_ID m) (db w) of
       (Inl err, d') \<Rightarrow>
         (let (ms', w') =
            loadAttachments s ms
              (logger_Error ''Failed to load attachments for message'' err (w\<lparr>db := d'\<rparr>))
          in (m # ms', w'))
     | (Inr attachments, d') \<Rightarrow>
         (let (ms', w') = loadAttachments s ms (w\<lparr>db := d'\<rparr>)
          in (m\<lparr>msg_Attachments := attachments\<rparr> # ms', w')))"

definition GetMessages ::
  "('d, 'r) messagingService \<Rightarrow> string \<Rightarrow> string \<Rightarrow> PaginationParams \<Rightarrow> ('d, 'r) world
    \<Rightarrow> (error + Message list) \<times> ('d, 'r) world" where
  "GetMessages s conversationID userID pagination w =
    (case GetConversation s conversationID userID w of
       (Inl err, w1) \<Rightarrow> (Inl err, w1)
     | (Inr _, w1) \<Rightarrow>
         (case msgRepo_GetByConversationID (messageRepo s) conversationID pagination (db w1) of
            (Inl err, d') \<Rightarrow> (Inl (''failed to get messages: '' @ err), w1\<lparr>db := d'\<rparr>)
          | (Inr msgs, d') \<Rightarrow>
              (let (msgs', w2) = loadAttachments s msgs (w1\<lparr>db := d'\<rparr>)
               in (Inr msgs', w2))))"

definition GetMessage ::
  "('d, 'r) messagingService \<Rightarrow> string \<Rightarrow> string \<Rightarrow> ('d, 'r) world
    \<Rightarrow> (error + Message) \<times> ('d, 'r) world" where
  "GetMessage s messageID userID w =
    (case msgRepo_GetByID (messageRepo s) messageID (db w) of
       (Inl err, d') \<Rightarrow> (Inl (''failed to get message: '' @ err), w\<lparr>db := d'\<rparr>)
     | (Inr message, d') \<Rightarrow>
         (case GetConversation s (msg_ConversationID message) userID (w\<lparr>db := d'\<rparr>) of
            (Inl err, w1) \<Rightarrow> (Inl err, w1)
          | (Inr _, w1) \<Rightarrow>
              (case attRepo_GetByMessageID (attachmentRepo s) messageID (db w1) of
                 (Inl err, d'') \<Rightarrow>
                   (Inr message,
                    logger_Error ''Failed to load attachments for message'' err
                      (w1\<lparr>db := d''\<rparr>))
               | (Inr attachments, d'') \<Rightarrow>
                   (Inr (message\<lparr>msg_Attachments := attachments\<rparr>), w1\<lparr>db := d''\<rparr>))))"


section \<open>The PostgreSQL repositories (package repositories)\<close>

text \<open>
  The database behind \<^verbatim>\<open>*sql.DB\<close>: the three tables of the repository's schema
  script as lists of rows, the statements issued so far (a write with the row it
  carries, a read with the id it asks for), the database's own clock
  (\<^verbatim>\<open>NOW()\<close>), and for every statement the driver error that it meets, if any (an
  unreachable server, a timeout, a malformed id). Within one operation of the service
  every statement is issued at most once, so a fault per statement covers every pattern
  of failures during the operation. The constraints of the schema are part of the
  statements; the texts of the driver's errors stand for the driver's. Rows always scan,
  metadata always marshals, and the lines that a repository writes to its own logger
  are left out.
\<close>

datatype sql =
  InsertConversation Conversation
| SelectConversation string
| UpdateConversation Conversation
| InsertMessage Message
| SelectMessage string
| SelectMessages string
| SelectAttachment string
| SelectAttachments string

record database =
  tbl_conversations :: "Conversation list"
  tbl_messages :: "Message list"
  tbl_attachments :: "Attachment list"
  db_fault :: "sql \<Rightarrow> error option"
  db_now :: time
  statements :: "sql list"

definition db_exec :: "sql \<Rightarrow> database \<Rightarrow> error option \<times> database" where
  "db_exec q d = (db_fault d q, d\<lparr>statements := statements d @ [q]\<rparr>)"

text \<open>The CHECK constraints of the schema.\<close>

definition valid_channels :: "Channel list" where
  "valid_channels = [''whatsapp'', ''web'', ''messenger'', ''instagram'']"
definition valid_statuses :: "ConversationStatus list" where
  "valid_statuses = [''active'', ''closed'', ''archived'']"
definition valid_sender_types :: "SenderType list" where
  "valid_sender_types = [''user'', ''bot'', ''system'']"
definition valid_content_types :: "ContentType list" where
  "valid_content_types = [''text'', ''image'', ''video'', ''audio'', ''file'']"

text \<open>
  \<^verbatim>\<open>INSERT INTO conversations\<close>: the CHECK constraints and the primary key of the schema
  reject the row with a driver error.
\<close>

definition postgresConversationRepository_Create ::
  "Conversation \<Rightarrow> database \<Rightarrow> error option \<times> database" where
  "postgresConversationRepository_Create c d =
    (case db_exec (InsertConversation c) d of
       (Some err, d1) \<Rightarrow> (Some (''failed to create conversation: '' @ err), d1)
     | (None, d1) \<Rightarrow>
         if \<not> (List.member valid_channels (conv_Channel c)
               \<and> List.member valid_statuses (conv_Status c))
         then (Some (''failed to create conversation: ''
                 @ ''pq: new row violates check constraint''), d1)
         else if list_ex (\<lambda>r. conv_ID r = conv_ID c) (tbl_conversations d1)
         then (Some (''failed to create conversation: ''
                 @ ''pq: duplicate key value violates unique constraint''), d1)
         else (None, d1\<lparr>tbl_conversations :=
                 tbl_conversations d1 @ [c\<lparr>conv_Messages := []\<rparr>]\<rparr>))"

text \<open>
  \<^verbatim>\<open>SELECT ... WHERE id = $1\<close> scanned into a fresh struct: the columns are set, the
  field \<^verbatim>\<open>Messages\<close> (tag \<^verbatim>\<open>db:"-"\<close>) stays empty. No row is \<^verbatim>\<open>sql.ErrNoRows\<close>.
\<close>

definition postgresConversationRepository_GetByID ::
  "string \<Rightarrow> database \<Rightarrow> (error + Conversation) \<times> database" where
  "postgresConversationRepository_GetByID convID d =
    (case db_exec (SelectConversation convID) d of
       (Some err, d1) \<Rightarrow> (Inl (''failed to get conversation: '' @ err), d1)
     | (None, d1) \<Rightarrow>
         (case find (\<lambda>r. conv_ID r = convID) (tbl_conversations d1) of
            None \<Rightarrow> (Inl ''conversation not found'', d1)
          | Some r \<Rightarrow> (Inr (r\<lparr>conv_Messages := []\<rparr>), d1)))"

text \<open>
  \<^verbatim>\<open>UPDATE conversations SET user_id, channel, status, updated_at WHERE id = $1\<close>.
  No matching row gives zero affected rows, hence "conversation not found". The
  schema's trigger \<^verbatim>\<open>update_conversations_updated_at\<close> replaces the written
  \<^verbatim>\<open>updated_at\<close> by the database's \<^verbatim>\<open>NOW()\<close>.
\<close>

definition postgresConversationRepository_Update ::
  "Conversation \<Rightarrow> database \<Rightarrow> error option \<times> database" where
  "postgresConversationRepository_Update c d =
    (case db_exec (UpdateConversation c) d of
       (Some err, d1) \<Rightarrow> (Some (''failed to update conversation: '' @ err), d1)
     | (None, d1) \<Rightarrow>
         if \<not> list_ex (\<lambda>r. conv_ID r = conv_ID c) (tbl_conversations d1)
         then (Some ''conversation not found'', d1)
         else if \<not> (List.member valid_channels (conv_Channel c)
                    \<and> List.member valid_statuses (conv_Status c))
         then (Some (''failed to update conversation: ''
                 @ ''pq: new row violates check constraint''), d1)
         else (None, d1\<lparr>tbl_conversations :=
                 map (\<lambda>r. if conv_ID r = conv_ID c
                          then r\<lparr>conv_UserID := conv_UserID c, conv_Channel := conv_Channel c,
                                 conv_Status := conv_Status c, conv_UpdatedAt := db_now d1\<rparr>
                          else r)
                     (tbl_conversations d1)\<rparr>))"

definition postgresConversationRepository :: "database ConversationRepository" where
  "postgresConversationRepository =
    \<lparr>convRepo_Create = postgresConversationRepository_Create,
     convRepo_GetByID = postgresConversationRepository_GetByID,
     convRepo_Update = postgresConversationRepository_Update\<rparr>"

text \<open>
  \<^verbatim>\<open>INSERT INTO messages\<close>: the CHECK constraints, the primary key and the foreign key
  to conversations of the schema. The attachments are not a column.
\<close>

definition postgresMessageRepository_Create ::
  "Message \<Rightarrow> database \<Rightarrow> error option \<times> database" where
  "postgresMessageRepository_Create m d =
    (case db_exec (InsertMessage m) d of
       (Some err, d1) \<Rightarrow> (Some (''failed to create message: '' @ err), d1)
     | (None, d1) \<Rightarrow>
         if \<not> (List.member valid_sender_types (msg_SenderType m)
               \<and> List.member valid_content_types (msg_ContentType m))
         then (Some (''failed to create message: ''
                 @ ''pq: new row violates check constraint''), d1)
         else if list_ex (\<lambda>r. msg_ID r = msg_ID m) (tbl_messages d1)
         then (Some (''failed to create message: ''
                 @ ''pq: duplicate key value violates unique constraint''), d1)
         else if \<not> list_ex (\<lambda>r. conv_ID r = msg_ConversationID m) (tbl_conversations d1)
         then (Some (''failed to create message: ''
                 @ ''pq: insert violates foreign key constraint''), d1)
         else (None, d1\<lparr>tbl_messages := tbl_messages d1 @ [m\<lparr>msg_Attachments := []\<rparr>]\<rparr>))"

definition postgresMessageRepository_GetByID ::
  "string \<Rightarrow> database \<Rightarrow> (error + Message) \<times> database" where
  "postgresMessageRepository_GetByID messageID d =
    (case db_exec (SelectMessage messageID) d of
       (Some err, d1) \<Rightarrow> (Inl (''failed to get message: '' @ err), d1)
     | (None, d1) \<Rightarrow>
         (case find (\<lambda>r. msg_ID r = messageID) (tbl_messages d1) of
            None \<Rightarrow> (Inl ''message not found'', d1)
          | Some r \<Rightarrow> (Inr (r\<lparr>msg_Attachments := []\<rparr>), d1)))"

text \<open>
  \<^verbatim>\<open>SELECT ... WHERE conversation_id = $1 ORDER BY timestamp DESC\<close>, with
  \<^verbatim>\<open>LIMIT\<close> when the limit is positive and \<^verbatim>\<open>OFFSET\<close> when the offset is positive.
  Rows of equal timestamp come in one of the orders SQL allows.
\<close>

definition postgresMessageRepository_GetByConversationID ::
  "string \<Rightarrow> PaginationParams \<Rightarrow> database \<Rightarrow> (error + Message list) \<times> database" where
  "postgresMessageRepository_GetByConversationID conversationID pagination d =
    (case db_exec (SelectMessages conversationID) d of
       (Some err, d1) \<Rightarrow> (Inl (''failed to get messages: '' @ err), d1)
     | (None, d1) \<Rightarrow>
         (let matching = filter (\<lambda>r. msg_ConversationID r = conversationID) (tbl_messages d1);
              ordered = rev (sort_key msg_Timestamp matching);
              skipped = (if pg_Offset pagination > 0
                         then drop (nat (pg_Offset pagination)) ordered else ordered);
              page = (if pg_Limit pagination > 0
                      then take (nat (pg_Limit pagination)) skipped else skipped)
          in (Inr (map (\<lambda>r. r\<lparr>msg_Attachments := []\<rparr>) page), d1)))"

definition postgresMessageRepository :: "database MessageRepository" where
  "postgresMessageRepository =
    \<lparr>msgRepo_Create = postgresMessageRepository_Create,
     msgRepo_GetByID = postgresMessageRepository_GetByID,
     msgRepo_GetByConversationID = postgresMessageRepository_GetByConversationID\<rparr>"

definition postgresAttachmentRepository_GetByID ::
  "string \<Rightarrow> database \<Rightarrow> (error + Attachment) \<times> database" where
  "postgresAttachmentRepository_GetByID attachmentID d =
    (case db_exec (SelectAttachment attachmentID) d of
       (Some err, d1) \<Rightarrow> (Inl (''failed to get attachment: '' @ err), d1)
     | (None, d1) \<Rightarrow>
         (case find (\<lambda>r. att_ID r = attachmentID) (tbl_attachments d1) of
            None \<Rightarrow> (Inl ''attachment not found'', d1)
          | Some r \<Rightarrow> (Inr r, d1)))"

text \<open>\<^verbatim>\<open>SELECT ... WHERE message_id = $1 ORDER BY created_at ASC\<close>.\<close>

definition postgresAttachmentRepository_GetByMessageID ::
  "string \<Rightarrow> database \<Rightarrow> (error + Attachment list) \<times> database" where
  "postgresAttachmentRepository_GetByMessageID messageID d =
    (case db_exec (SelectAttachments messageID) d of
       (Some err, d1) \<Rightarrow> (Inl (''failed to get attachments: '' @ err), d1)
     | (None, d1) \<Rightarrow>
         (Inr (sort_key att_CreatedAt
                 (filter (\<lambda>r. att_MessageID r = messageID) (tbl_attachments d1))), d1))"

definition postgresAttachmentRepository :: "database AttachmentRepository" where
  "postgresAttachmentRepository =
    \<lparr>attRepo_GetByID = postgresAttachmentRepository_GetByID,
     attRepo_GetByMessageID = postgresAttachmentRepository_GetByMessageID\<rparr>"

section \<open>Redis: the cache and the event publisher (package services)\<close>

text \<open>
  The server behind \<^verbatim>\<open>*redis.Client\<close>: the keys with their value and time to live, the
  payloads published per channel, the commands issued so far, and for every command
  the error that it meets, if any. A value is the JSON text that was set; what matters
  of it is what \<^verbatim>\<open>json.Unmarshal\<close> makes of it. Marshalling a domain record never
  fails, and the lines that the cache and the publisher write to their own logger are
  left out.
\<close>

datatype redis_cmd = GET string | SET string | DEL string | PUBLISH string

datatype redis_value =
  ConversationJSON Conversation
| MessagesJSON "Message list"
| OtherText string

record redis =
  keyspace :: "string \<Rightarrow> (redis_value \<times> nat) option"
  published :: "(string \<times> MessageEvent) list"
  redis_fault :: "redis_cmd \<Rightarrow> error option"
  commands :: "redis_cmd list"

definition redis_exec :: "redis_cmd \<Rightarrow> redis \<Rightarrow> error option \<times> redis" where
  "redis_exec cmd r = (redis_fault r cmd, r\<lparr>commands := commands r @ [cmd]\<rparr>)"

text \<open>\<^verbatim>\<open>time.Minute\<close> in nanoseconds; the expiration that \<^verbatim>\<open>NewRedisCacheService\<close> sets.\<close>

definition Minute :: nat where
  "Minute = 60 * 1000000000"

definition redisCacheService_expiration :: nat where
  "redisCacheService_expiration = 30 * Minute"

definition redisCacheService_GetConversation ::
  "string \<Rightarrow> redis \<Rightarrow> (Conversation option \<times> error option) \<times> redis" where
  "redisCacheService_GetConversation convID r =
    (let key = ''conversation:'' @ convID in
     case redis_exec (GET key) r of
       (Some err, r1) \<Rightarrow> ((None, Some err), r1)
     | (None, r1) \<Rightarrow>
         (case keyspace r1 key of
            None \<Rightarrow> ((None, Some ''conversation not found in cache''), r1)
          | Some (ConversationJSON c, ttl) \<Rightarrow> ((Some c, None), r1)
          | Some (MessagesJSON ms, ttl) \<Rightarrow>
              ((None, Some ''json: cannot unmarshal array into Go value''), r1)
          | Some (OtherText t, ttl) \<Rightarrow> ((None, Some ''json: invalid character''), r1)))"

definition redisCacheService_SetConversation ::
  "Conversation \<Rightarrow> redis \<Rightarrow> error option \<times> redis" where
  "redisCacheService_SetConversation conversation r =
    (let key = ''conversation:'' @ conv_ID conversation in
     case redis_exec (SET key) r of
       (Some err, r1) \<Rightarrow> (Some err, r1)
     | (None, r1) \<Rightarrow>
         (None, r1\<lparr>keyspace := (keyspace r1)
                  (key \<mapsto> (ConversationJSON conversation, redisCacheService_expiration))\<rparr>))"

definition redisCacheService_DeleteConversation ::
  "string \<Rightarrow> redis \<Rightarrow> error option \<times> redis" where
  "redisCacheService_DeleteConversation convID r =
    (let key = ''conversation:'' @ convID in
     case redis_exec (DEL key) r of
       (Some err, r1) \<Rightarrow> (Some err, r1)
     | (None, r1) \<Rightarrow> (None, r1\<lparr>keyspace := (keyspace r1)(key := None)\<rparr>))"

definition redisCacheService_GetMessages ::
  "string \<Rightarrow> redis \<Rightarrow> (Message list option \<times> error option) \<times> redis" where
  "redisCacheService_GetMessages conversationID r =
    (let key = ''messages:'' @ conversationID in
     case redis_exec (GET key) r of
       (Some err, r1) \<Rightarrow> ((None, Some err), r1)
     | (None, r1) \<Rightarrow>
         (case keyspace r1 key of
            None \<Rightarrow> ((None, Some ''messages not found in cache''), r1)
          | Some (MessagesJSON ms, ttl) \<Rightarrow> ((Some ms, None), r1)
          | Some (ConversationJSON c, ttl) \<Rightarrow>
              ((None, Some ''json: cannot unmarshal object into Go value''), r1)
          | Some (OtherText t, ttl) \<Rightarrow> ((None, Some ''json: invalid character''), r1)))"

definition redisCacheService_SetMessages ::
  "string \<Rightarrow> Message list \<Rightarrow> redis \<Rightarrow> error option \<times> redis" where
  "redisCacheService_SetMessages conversationID msgs r =
    (let key = ''messages:'' @ conversationID;
         expiration = 10 * Minute in
     case redis_exec (SET key) r of
       (Some err, r1) \<Rightarrow> (Some err, r1)
     | (None, r1) \<Rightarrow>
         (None, r1\<lparr>keyspace := (keyspace r1)(key \<mapsto> (MessagesJSON msgs, expiration))\<rparr>))"

definition redisCacheService_DeleteMessages ::
  "string \<Rightarrow> redis \<Rightarrow> error option \<times> redis" where
  "redisCacheService_DeleteMessages conversationID r =
    (let key = ''messages:'' @ conversationID in
     case redis_exec (DEL key) r of
       (Some err, r1) \<Rightarrow> (Some err, r1)
     | (None, r1) \<Rightarrow> (None, r1\<lparr>keyspace := (keyspace r1)(key := None)\<rparr>))"

definition redisCacheService :: "redis CacheService" where
  "redisCacheService =
    \<lparr>cache_GetConversation = redisCacheService_GetConversation,
     cache_SetConversation = redisCacheService_SetConversation,
     cache_DeleteConversation = redisCacheService_DeleteConversation,
     cache_GetMessages = redisCacheService_GetMessages,
     cache_SetMessages = redisCacheService_SetMessages,
     cache_DeleteMessages = redisCacheService_DeleteMessages\<rparr>"

text \<open>The cache used when caching is disabled: every read misses, every write is dropped.\<close>

definition noOpCacheService :: "'r CacheService" where
  "noOpCacheService =
    \<lparr>cache_GetConversation = (\<lambda>convID r. ((None, Some ''cache disabled''), r)),
     cache_SetConversation = (\<lambda>conversation r. (None, r)),
     cache_DeleteConversation = (\<lambda>convID r. (None, r)),
     cache_GetMessages = (\<lambda>conversationID r. ((None, Some ''cache disabled''), r)),
     cache_SetMessages = (\<lambda>conversationID msgs r. (None, r)),
     cache_DeleteMessages = (\<lambda>conversationID r. (None, r))\<rparr>"

definition redisEventPublisher_PublishMessageEvent ::
  "string \<Rightarrow> MessageEvent \<Rightarrow> redis \<Rightarrow> error option \<times> redis" where
  "redisEventPublisher_PublishMessageEvent topic event r =
    (case redis_exec (PUBLISH topic) r of
       (Some err, r1) \<Rightarrow> (Some err, r1)
     | (None, r1) \<Rightarrow> (None, r1\<lparr>published := published r1 @ [(topic, event)]\<rparr>))"

definition redisEventPublisher :: "string \<Rightarrow> redis EventPublisher" where
  "redisEventPublisher topic =
    \<lparr>pub_PublishMessageEvent = redisEventPublisher_PublishMessageEvent topic\<rparr>"

definition noOpEventPublisher :: "'r EventPublisher" where
  "noOpEventPublisher = \<lparr>pub_PublishMessageEvent = (\<lambda>event r. (None, r))\<rparr>"

text \<open>
  \<^verbatim>\<open>NewMessagingService\<close> as \<^verbatim>\<open>main\<close> calls it when the database and Redis are up.
\<close>

definition NewMessagingService ::
  "'d ConversationRepository \<Rightarrow> 'd MessageRepository \<Rightarrow> 'd AttachmentRepository
    \<Rightarrow> 'r EventPublisher \<Rightarrow> 'r CacheService \<Rightarrow> ('d, 'r) messagingService" where
  "NewMessagingService conversationRepo' messageRepo' attachmentRepo' eventPublisher'
      cacheService' =
    \<lparr>conversationRepo = conversationRepo', messageRepo = messageRepo',
     attachmentRepo = attachmentRepo', eventPublisher = Some eventPublisher',
     cacheService = Some cacheService'\<rparr>"

definition redisService :: "string \<Rightarrow> (database, redis) messagingService" where
  "redisService topic =
    NewMessagingService postgresConversationRepository postgresMessageRepository
      postgresAttachmentRepository (redisEventPublisher topic) redisCacheService"

definition noCacheService :: "string \<Rightarrow> (database, redis) messagingService" where
  "noCacheService topic =
    NewMessagingService postgresConversationRepository postgresMessageRepository
      postgresAttachmentRepository (redisEventPublisher topic) noOpCacheService"

section \<open>The HTTP handlers (package handlers)\<close>

text \<open>
  What a handler reads of the \<^verbatim>\<open>gin.Context\<close>: the Authorization header, the path
  parameter \<^verbatim>\<open>id\<close>, and the body as \<^verbatim>\<open>encoding/json\<close> decodes it into a
  \<^verbatim>\<open>SendMessageRequest\<close> (or the decoder's error).
\<close>

record Context =
  ctx_Authorization :: string
  ctx_Param_id :: string
  ctx_Body :: "error + SendMessageRequest"

text \<open>
  Package \<^verbatim>\<open>auth\<close> is not among the sources: the two methods of the JWT manager that
  the handlers call are parameters. \<^verbatim>\<open>ExtractTokenFromHeader\<close> reads of the context the
  Authorization header, which carries the bearer token. Of the claims only the user id
  is read.
\<close>

record Claims =
  claims_UserID :: string

record JWTManager =
  jwt_ExtractTokenFromHeader :: "string \<Rightarrow> error + string"
  jwt_ValidateToken :: "string \<Rightarrow> error + Claims"

record ('d, 'r) MessagingHandler =
  messagingService :: "('d, 'r) messagingService"
  jwtManager :: JWTManager

datatype response_data =
  NoData
| ConversationData Conversation
| MessageData Message

record APIResponse =
  resp_Code :: string
  resp_Message :: string
  resp_Data :: response_data

type_synonym http_response = "nat \<times> APIResponse"

definition respondWithError :: "nat \<Rightarrow> string \<Rightarrow> string \<Rightarrow> http_response" where
  "respondWithError statusCode code message =
    (statusCode, \<lparr>resp_Code = code, resp_Message = message, resp_Data = NoData\<rparr>)"

definition respondWithSuccess :: "nat \<Rightarrow> string \<Rightarrow> response_data \<Rightarrow> http_response" where
  "respondWithSuccess statusCode message data =
    (statusCode, \<lparr>resp_Code = ''SUCCESS'', resp_Message = message, resp_Data = data\<rparr>)"

definition getUserIDFromContext :: "('d, 'r) MessagingHandler \<Rightarrow> Context \<Rightarrow> string" where
  "getUserIDFromContext h c =
    (case jwt_ExtractTokenFromHeader (jwtManager h) (ctx_Authorization c) of
       Inl err \<Rightarrow> []
     | Inr token \<Rightarrow>
         (case jwt_ValidateToken (jwtManager h) token of
            Inl err \<Rightarrow> []
          | Inr claims \<Rightarrow> claims_UserID claims))"





definition MessagingHandler_GetConversation ::
  "('d, 'r) MessagingHandler \<Rightarrow> Context \<Rightarrow> ('d, 'r) world
    \<Rightarrow> http_response \<times> ('d, 'r) world" where
  "MessagingHandler_GetConversation h c w =
    (let userID = getUserIDFromContext h c in
     if userID = [] then (respondWithError 401 ''UNAUTHORIZED'' ''Invalid token'', w)
     else
       (let conversationID = ctx_Param_id c in
        if conversationID = []
        then (respondWithError 400 ''INVALID_REQUEST'' ''Conversation ID is required'', w)
        else
          (case GetConversation (messagingService h) conversationID userID w of
             (Inl err, w1) \<Rightarrow>
               (respondWithError 404 ''NOT_FOUND'' ''Conversation not found'',
                logger_Error ''Failed to get conversation'' err w1)
           | (Inr conversation, w1) \<Rightarrow>
               (respondWithSuccess 200 ''Conversation retrieved successfully''
                  (ConversationData conversation), w1))))"


section \<open>Notions used to state the properties\<close>

text \<open>
  The conversation that a reader of the cache finds under an id: the record decoded
  from the key, when the read meets no error. The conversation that a reader of the
  store finds under an id: the first row with that id, when the query meets no error.
\<close>

definition cache_view :: "redis \<Rightarrow> string \<Rightarrow> Conversation option" where
  "cache_view r convID =
    (case redis_fault r (GET (''conversation:'' @ convID)) of
       Some err \<Rightarrow> None
     | None \<Rightarrow>
         (case keyspace r (''conversation:'' @ convID) of
            None \<Rightarrow> None
          | Some (ConversationJSON c, ttl) \<Rightarrow> Some c
          | Some (MessagesJSON ms, ttl) \<Rightarrow> None
          | Some (OtherText t, ttl) \<Rightarrow> None))"

definition store_view :: "database \<Rightarrow> string \<Rightarrow> Conversation option" where
  "store_view d convID =
    (case db_fault d (SelectConversation convID) of
       Some err \<Rightarrow> None
     | None \<Rightarrow> find (\<lambda>r. conv_ID r = convID) (tbl_conversations d))"

text \<open>A conversation with the id, owned by the user, is found in the cache or in the store.\<close>

definition owned_somewhere :: "(database, redis) world \<Rightarrow> string \<Rightarrow> string \<Rightarrow> bool" where
  "owned_somewhere w convID userID =
    ((case cache_view (kv w) convID of None \<Rightarrow> False | Some c \<Rightarrow> conv_UserID c = userID)
     \<or> (case store_view (db w) convID of None \<Rightarrow> False | Some c \<Rightarrow> conv_UserID c = userID))"

text \<open>Two states of the database with the same rows, faults and clock.\<close>

definition same_data :: "database \<Rightarrow> database \<Rightarrow> bool" where
  "same_data d d' =
    (tbl_conversations d' = tbl_conversations d \<and> tbl_messages d' = tbl_messages d
     \<and> tbl_attachments d' = tbl_attachments d \<and> db_fault d' = db_fault d
     \<and> db_now d' = db_now d)"

text \<open>The answer of a cache read that \<^verbatim>\<open>GetConversation\<close> returns to its caller.\<close>

definition usable_hit :: "Conversation option \<times> error option \<Rightarrow> string \<Rightarrow> bool" where
  "usable_hit answer userID =
    (case answer of
       (Some c, None) \<Rightarrow> conv_UserID c = userID
     | (Some c, Some err) \<Rightarrow> False
     | (None, err) \<Rightarrow> False)"

text \<open>A Redis command on a key of the message pages.\<close>

definition on_messages_key :: "redis_cmd \<Rightarrow> bool" where
  "on_messages_key cmd =
    (case cmd of
       GET k \<Rightarrow> take 9 k = ''messages:''
     | SET k \<Rightarrow> take 9 k = ''messages:''
     | DEL k \<Rightarrow> take 9 k = ''messages:''
     | PUBLISH t \<Rightarrow> False)"

text \<open>
  Two states of Redis with the same history of commands on message-page keys and the
  same value under the message-page key of a conversation.
\<close>

definition messages_cache_same :: "redis \<Rightarrow> redis \<Rightarrow> string \<Rightarrow> bool" where
  "messages_cache_same r r' conversationID =
    (filter on_messages_key (commands r') = filter on_messages_key (commands r)
     \<and> keyspace r' (''messages:'' @ conversationID)
         = keyspace r (''messages:'' @ conversationID))"

section \<open>Example worlds\<close>

definition conv1 :: Conversation where
  "conv1 = \<lparr>conv_ID = ''c1'', conv_UserID = ''u1'', conv_Channel = ''web'',
     conv_Status = ''active'', conv_CreatedAt = 1, conv_UpdatedAt = 1, conv_Messages = []\<rparr>"

definition msg1 :: Message where
  "msg1 = \<lparr>msg_ID = ''m1'', msg_ConversationID = ''c1'', msg_SenderType = ''user'',
     msg_SenderID = ''u1'', msg_Content = ''hello'', msg_ContentType = ''text'',
     msg_Metadata = [], msg_Timestamp = 5, msg_Attachments = []\<rparr>"

definition msg2 :: Message where
  "msg2 = \<lparr>msg_ID = ''m2'', msg_ConversationID = ''c1'', msg_SenderType = ''bot'',
     msg_SenderID = ''bot001'', msg_Content = ''hi'', msg_ContentType = ''text'',
     msg_Metadata = [], msg_Timestamp = 6, msg_Attachments = []\<rparr>"

definition att1 :: Attachment where
  "att1 = \<lparr>att_ID = ''a1'', att_MessageID = ''m1'', att_URL = ''/uploads/u1/f.png'',
     att_Type = ''image'', att_Size = 3, att_Filename = ''f.png'', att_CreatedAt = 5\<rparr>"

definition att2 :: Attachment where
  "att2 = \<lparr>att_ID = ''a2'', att_MessageID = ''m2'', att_URL = ''/uploads/u1/g.png'',
     att_Type = ''image'', att_Size = 4, att_Filename = ''g.png'', att_CreatedAt = 6\<rparr>"

definition db0 :: database where
  "db0 = \<lparr>tbl_conversations = [conv1], tbl_messages = [msg1, msg2],
     tbl_attachments = [att1, att2], db_fault = (\<lambda>q. None), db_now = 10, statements = []\<rparr>"

definition redis0 :: redis where
  "redis0 = \<lparr>keyspace = (\<lambda>k. None), published = [], redis_fault = (\<lambda>cmd. None),
     commands = []\<rparr>"

definition world0 :: "(database, redis) world" where
  "world0 = \<lparr>db = db0, kv = redis0, logs = [], now_supply = (\<lambda>n. 20 + n), now_reads = 0,
     uuid_supply = (\<lambda>n. ''id-'' @ replicate n (CHR ''x'')), uuid_reads = 0\<rparr>"

text \<open>
  The cache holds a copy of the conversation under another owner than the store's row.
\<close>

definition world_foreign :: "(database, redis) world" where
  "world_foreign = world0\<lparr>kv := redis0\<lparr>keyspace :=
     (\<lambda>k. if k = ''conversation:c1''
          then Some (ConversationJSON (conv1\<lparr>conv_UserID := ''u2''\<rparr>), 30 * Minute)
          else None)\<rparr>\<rparr>"

text \<open>
  The cache holds a copy of the conversation with status active; the store's row is
  closed.
\<close>

definition world_stale :: "(database, redis) world" where
  "world_stale = world0
     \<lparr>db := db0\<lparr>tbl_conversations := [conv1\<lparr>conv_Status := ''closed'', conv_UpdatedAt := 9\<rparr>]\<rparr>,
      kv := redis0\<lparr>keyspace :=
        (\<lambda>k. if k = ''conversation:c1'' then Some (ConversationJSON conv1, 30 * Minute)
             else None)\<rparr>\<rparr>"


text \<open>
  A JWT manager for the examples: the header is \<^verbatim>\<open>Bearer\<close> and a token; two tokens are
  valid, one for each of the users u1 and u2.
\<close>

definition jwt0 :: JWTManager where
  "jwt0 = \<lparr>jwt_ExtractTokenFromHeader =
       (\<lambda>header. if take 7 header = ''Bearer '' then Inr (drop 7 header)
                 else Inl ''authorization header format must be Bearer {token}''),
     jwt_ValidateToken =
       (\<lambda>token. if token = ''token-u1'' then Inr \<lparr>claims_UserID = ''u1''\<rparr>
                else if token = ''token-u2'' then Inr \<lparr>claims_UserID = ''u2''\<rparr>
                else Inl ''invalid token'')\<rparr>"

definition handler0 :: "(database, redis) MessagingHandler" where
  "handler0 = \<lparr>messagingService = redisService ''events'', jwtManager = jwt0\<rparr>"

definition ctx_get :: "string \<Rightarrow> string \<Rightarrow> Context" where
  "ctx_get token convID =
    \<lparr>ctx_Authorization = ''Bearer '' @ token, ctx_Param_id = convID,
     ctx_Body = Inl ''EOF''\<rparr>"

text \<open>The Redis server is unreachable: every command fails.\<close>

definition world_cache_down :: "(database, redis) world" where
  "world_cache_down = world0\<lparr>kv := redis0
     \<lparr>redis_fault := (\<lambda>cmd. Some ''dial tcp 127.0.0.1:6379: connect: connection refused'')\<rparr>\<rparr>"

text \<open>Redis rejects the publication on the topic; the cache works.\<close>

definition world_pub_down :: "(database, redis) world" where
  "world_pub_down = world0\<lparr>kv := redis0
     \<lparr>redis_fault := (\<lambda>cmd. if cmd = PUBLISH ''events'' then Some ''i/o timeout'' else None)\<rparr>\<rparr>"

definition req1 :: SendMessageRequest where
  "req1 = \<lparr>req_ConversationID = ''c1'', req_SenderType = ''user'', req_SenderID = ''u1'',
     req_Content = ''hello'', req_ContentType = ''text'', req_Metadata = []\<rparr>"

definition sent1 :: Message where
  "sent1 = \<lparr>msg_ID = ''id-'', msg_ConversationID = ''c1'', msg_SenderType = ''user'',
     msg_SenderID = ''u1'', msg_Content = ''hello'', msg_ContentType = ''text'',
     msg_Metadata = [], msg_Timestamp = 20, msg_Attachments = []\<rparr>"

text \<open>The query for the attachments of message m1 fails; every other statement works.\<close>

definition world_att_down :: "(database, redis) world" where
  "world_att_down = world0\<lparr>db := db0
     \<lparr>db_fault := (\<lambda>q. if q = SelectAttachments ''m1'' then Some ''driver: bad connection''
                       else None)\<rparr>\<rparr>"

definition page0 :: PaginationParams where
  "page0 = \<lparr>pg_Limit = 50, pg_Offset = 0, pg_SortBy = ''timestamp'', pg_Order = ''DESC''\<rparr>"


section \<open>Properties of the read path\<close>

lemma find_SomeD: "find P xs = Some x \<Longrightarrow> P x \<and> x \<in> set xs"
  by (induction xs) (auto split: if_splits)

lemmas svc_defs = redisService_def noCacheService_def NewMessagingService_def
  redisCacheService_def noOpCacheService_def postgresConversationRepository_def
  postgresMessageRepository_def postgresAttachmentRepository_def redisEventPublisher_def

lemmas redis_defs = redisCacheService_GetConversation_def redisCacheService_SetConversation_def
  redisCacheService_DeleteConversation_def redis_exec_def

lemma redisService_sel:
  "conversationRepo (redisService topic) = postgresConversationRepository"
  "messageRepo (redisService topic) = postgresMessageRepository"
  "attachmentRepo (redisService topic) = postgresAttachmentRepository"
  "eventPublisher (redisService topic) = Some (redisEventPublisher topic)"
  "cacheService (redisService topic) = Some redisCacheService"
  by (simp_all add: redisService_def NewMessagingService_def)

lemma postgres_sel:
  "convRepo_Create postgresConversationRepository = postgresConversationRepository_Create"
  "convRepo_GetByID postgresConversationRepository = postgresConversationRepository_GetByID"
  "convRepo_Update postgresConversationRepository = postgresConversationRepository_Update"
  "msgRepo_Create postgresMessageRepository = postgresMessageRepository_Create"
  "msgRepo_GetByID postgresMessageRepository = postgresMessageRepository_GetByID"
  "msgRepo_GetByConversationID postgresMessageRepository
     = postgresMessageRepository_GetByConversationID"
  "attRepo_GetByID postgresAttachmentRepository = postgresAttachmentRepository_GetByID"
  "attRepo_GetByMessageID postgresAttachmentRepository
     = postgresAttachmentRepository_GetByMessageID"
  by (simp_all add: postgresConversationRepository_def postgresMessageRepository_def
      postgresAttachmentRepository_def)

lemma redis_sel:
  "cache_GetConversation redisCacheService = redisCacheService_GetConversation"
  "cache_SetConversation redisCacheService = redisCacheService_SetConversation"
  "cache_DeleteConversation redisCacheService = redisCacheService_DeleteConversation"
  "cache_GetMessages redisCacheService = redisCacheService_GetMessages"
  "cache_SetMessages redisCacheService = redisCacheService_SetMessages"
  "cache_DeleteMessages redisCacheService = redisCacheService_DeleteMessages"
  "pub_PublishMessageEvent (redisEventPublisher topic)
     = redisEventPublisher_PublishMessageEvent topic"
  by (simp_all add: redisCacheService_def redisEventPublisher_def)

lemmas sel = redisService_sel postgres_sel redis_sel

lemma GetConversation_redis_result:
  fixes w :: "(database, redis) world"
  shows "fst (GetConversation (redisService topic) convID userID w) =
    (case cache_view (kv w) convID of
       Some c \<Rightarrow> if conv_UserID c = userID then Inr c else
          (case db_fault (db w) (SelectConversation convID) of
            Some err \<Rightarrow> Inl (''failed to get conversation: failed to get conversation: '' @ err)
          | None \<Rightarrow> (case find (\<lambda>r. conv_ID r = convID) (tbl_conversations (db w)) of
               None \<Rightarrow> Inl ''failed to get conversation: conversation not found''
             | Some r \<Rightarrow> if conv_UserID r = userID then Inr (r\<lparr>conv_Messages := []\<rparr>)
                         else Inl ''conversation not found or access denied''))
     | None \<Rightarrow> 
          (case db_fault (db w) (SelectConversation convID) of
            Some err \<Rightarrow> Inl (''failed to get conversation: failed to get conversation: '' @ err)
          | None \<Rightarrow> (case find (\<lambda>r. conv_ID r = convID) (tbl_conversations (db w)) of
               None \<Rightarrow> Inl ''failed to get conversation: conversation not found''
             | Some r \<Rightarrow> if conv_UserID r = userID then Inr (r\<lparr>conv_Messages := []\<rparr>)
                         else Inl ''conversation not found or access denied'')))"
  by (auto simp: GetConversation_def svc_defs redis_defs Let_def cache_view_def
      postgresConversationRepository_GetByID_def db_exec_def 
      split: option.splits redis_value.splits prod.splits sum.splits)

lemma GetConversation_redis_frame:
  fixes w :: "(database, redis) world"
  assumes "GetConversation (redisService topic) convID userID w = (res, w')"
  shows "tbl_conversations (db w') = tbl_conversations (db w)
    \<and> tbl_messages (db w') = tbl_messages (db w)
    \<and> tbl_attachments (db w') = tbl_attachments (db w)
    \<and> db_fault (db w') = db_fault (db w)
    \<and> db_now (db w') = db_now (db w)
    \<and> published (kv w') = published (kv w)
    \<and> redis_fault (kv w') = redis_fault (kv w)
    \<and> logs w' = logs w
    \<and> now_supply w' = now_supply w \<and> now_reads w' = now_reads w
    \<and> uuid_supply w' = uuid_supply w \<and> uuid_reads w' = uuid_reads w"
  using assms
  by (auto simp: GetConversation_def svc_defs redis_defs Let_def 
      postgresConversationRepository_GetByID_def db_exec_def 
      split: option.splits redis_value.splits prod.splits sum.splits if_splits)

lemma GetConversation_redis_keyspace:
  fixes w :: "(database, redis) world"
  assumes "GetConversation (redisService topic) convID userID w = (res, w')"
  shows "keyspace (kv w') =
    (case res of
       Inl err \<Rightarrow> keyspace (kv w)
     | Inr c \<Rightarrow>
        (case cache_view (kv w) convID of
           Some cached \<Rightarrow> if conv_UserID cached = userID then keyspace (kv w) else
              (case redis_fault (kv w) (SET (''conversation:'' @ convID)) of
                 Some err \<Rightarrow> keyspace (kv w)
               | None \<Rightarrow> (keyspace (kv w))(''conversation:'' @ convID \<mapsto> (ConversationJSON c, redisCacheService_expiration)))
         | None \<Rightarrow> 
              (case redis_fault (kv w) (SET (''conversation:'' @ convID)) of
                 Some err \<Rightarrow> keyspace (kv w)
               | None \<Rightarrow> (keyspace (kv w))(''conversation:'' @ convID \<mapsto> (ConversationJSON c, redisCacheService_expiration)))))"
  using assms
  by (auto simp: GetConversation_def svc_defs redis_defs Let_def cache_view_def
      postgresConversationRepository_GetByID_def db_exec_def 
      split: option.splits redis_value.splits prod.splits sum.splits if_splits dest!: find_SomeD)

lemma GetConversation_redis_issued:
  fixes w :: "(database, redis) world"
  assumes "GetConversation (redisService topic) convID userID w = (res, w')"
  shows "(statements (db w') = statements (db w) \<or>
          statements (db w') = statements (db w) @ [SelectConversation convID])
    \<and> (commands (kv w') = commands (kv w) @ [GET (''conversation:'' @ convID)] \<or>
        commands (kv w') = commands (kv w) @ [GET (''conversation:'' @ convID), SET (''conversation:'' @ convID)])
    \<and> ((case cache_view (kv w) convID of None \<Rightarrow> True | Some c \<Rightarrow> conv_UserID c \<noteq> userID)
         \<longrightarrow> statements (db w') = statements (db w) @ [SelectConversation convID])
    \<and> ((\<exists>err. res = Inl err) \<longrightarrow> commands (kv w') = commands (kv w) @ [GET (''conversation:'' @ convID)])"
  using assms
  by (auto simp: GetConversation_def svc_defs redis_defs Let_def cache_view_def
      postgresConversationRepository_GetByID_def db_exec_def 
      split: option.splits redis_value.splits prod.splits sum.splits if_splits dest!: find_SomeD)

lemma GetConversation_redis_set:
  fixes w :: "(database, redis) world"
  assumes "GetConversation (redisService topic) convID userID w = (res, w')"
  shows "commands (kv w') = commands (kv w) @ [GET (''conversation:'' @ convID)]
       \<or> (\<exists>r. store_view (db w) convID = Some r \<and> conv_UserID r = userID)"
  using assms
  by (auto simp: GetConversation_def svc_defs redis_defs Let_def store_view_def
      postgresConversationRepository_GetByID_def db_exec_def
      split: option.splits redis_value.splits prod.splits sum.splits if_splits)

text \<open>
  Claim C2. For every conversation id, requesting user, cache state and store state,
  \<^verbatim>\<open>GetConversation\<close> succeeds exactly when a conversation with that id whose owner is
  the requester is found in the cache or in the store, and the conversation returned is
  owned by the requester. A cached record of another owner is never returned: the store
  is queried instead. The cache is left as it was or is set, under the id, to the row
  read from the store, whose owner is the requester; a SET is issued only after such a
  row was read.
\<close>

theorem GetConversation_succeeds_iff_owned:
  fixes w :: "(database, redis) world"
  shows
   "((\<exists>c. fst (GetConversation (redisService topic) convID userID w) = Inr c)
       \<longleftrightarrow> owned_somewhere w convID userID)
    \<and> (\<forall>c. fst (GetConversation (redisService topic) convID userID w) = Inr c
          \<longrightarrow> conv_UserID c = userID)
    \<and> (\<forall>cached. cache_view (kv w) convID = Some cached \<and> conv_UserID cached \<noteq> userID
          \<longrightarrow> fst (GetConversation (redisService topic) convID userID w) \<noteq> Inr cached
              \<and> statements (db (snd (GetConversation (redisService topic) convID userID w)))
                  = statements (db w) @ [SelectConversation convID])
    \<and> (keyspace (kv (snd (GetConversation (redisService topic) convID userID w)))
          = keyspace (kv w)
        \<or> (\<exists>r. store_view (db w) convID = Some r \<and> conv_UserID r = userID
              \<and> keyspace (kv (snd (GetConversation (redisService topic) convID userID w)))
                  = (keyspace (kv w))(''conversation:'' @ convID \<mapsto>
                      (ConversationJSON (r\<lparr>conv_Messages := []\<rparr>),
                       redisCacheService_expiration))))
    \<and> (commands (kv (snd (GetConversation (redisService topic) convID userID w)))
          = commands (kv w) @ [GET (''conversation:'' @ convID)]
        \<or> (\<exists>r. store_view (db w) convID = Some r \<and> conv_UserID r = userID
              \<and> commands (kv (snd (GetConversation (redisService topic) convID userID w)))
                  = commands (kv w) @ [GET (''conversation:'' @ convID),
                                       SET (''conversation:'' @ convID)]))"
proof -
  obtain res w' where g: "GetConversation (redisService topic) convID userID w = (res, w')"
    by (cases "GetConversation (redisService topic) convID userID w")
  have r: "res = fst (GetConversation (redisService topic) convID userID w)"
    using g by simp
  note res = GetConversation_redis_result [of topic convID userID w, folded r]
  have 1: "(\<exists>c. res = Inr c) \<longleftrightarrow> owned_somewhere w convID userID"
    unfolding res owned_somewhere_def store_view_def
    by (auto split: option.splits)
  have 2: "\<forall>c. res = Inr c \<longrightarrow> conv_UserID c = userID"
    unfolding res by (auto split: option.splits if_splits)
  have 3: "\<forall>cached. cache_view (kv w) convID = Some cached \<and> conv_UserID cached \<noteq> userID
          \<longrightarrow> res \<noteq> Inr cached
              \<and> statements (db w') = statements (db w) @ [SelectConversation convID]"
    using 2 GetConversation_redis_issued [OF g] by auto
  have 4: "keyspace (kv w') = keyspace (kv w)
        \<or> (\<exists>r. store_view (db w) convID = Some r \<and> conv_UserID r = userID
              \<and> keyspace (kv w') = (keyspace (kv w))(''conversation:'' @ convID \<mapsto>
                      (ConversationJSON (r\<lparr>conv_Messages := []\<rparr>),
                       redisCacheService_expiration)))"
    using GetConversation_redis_keyspace [OF g] res
    by (auto simp: store_view_def split: option.splits sum.splits if_splits)
  have 5: "commands (kv w') = commands (kv w) @ [GET (''conversation:'' @ convID)]
        \<or> (\<exists>r. store_view (db w) convID = Some r \<and> conv_UserID r = userID
              \<and> commands (kv w') = commands (kv w) @ [GET (''conversation:'' @ convID),
                                       SET (''conversation:'' @ convID)])"
    using GetConversation_redis_issued [OF g] GetConversation_redis_set [OF g] by blast
  from 1 2 3 4 5 show ?thesis unfolding g fst_conv snd_conv by blast
qed

theorem GetConversation_succeeds_iff_owned_witness:
  "cache_view (kv world_foreign) ''c1'' = Some (conv1\<lparr>conv_UserID := ''u2''\<rparr>)
   \<and> store_view (db world_foreign) ''c1'' = Some conv1
   \<and> owned_somewhere world_foreign ''c1'' ''u1''
   \<and> fst (GetConversation (redisService ''events'') ''c1'' ''u1'' world_foreign) = Inr conv1
   \<and> conv_UserID conv1 = ''u1''
   \<and> statements (db (snd (GetConversation (redisService ''events'') ''c1'' ''u1'' world_foreign)))
       = [SelectConversation ''c1'']
   \<and> keyspace (kv (snd (GetConversation (redisService ''events'') ''c1'' ''u1'' world_foreign)))
        ''conversation:c1'' = Some (ConversationJSON conv1, redisCacheService_expiration)
   \<and> commands (kv (snd (GetConversation (redisService ''events'') ''c1'' ''u1'' world_foreign)))
       = [GET ''conversation:c1'', SET ''conversation:c1'']"
  using GetConversation_succeeds_iff_owned [of "''events''" "''c1''" "''u1''" world_foreign]
  by (simp add: GetConversation_def svc_defs redis_defs Let_def cache_view_def store_view_def
      owned_somewhere_def postgresConversationRepository_GetByID_def db_exec_def
      world_foreign_def world0_def db0_def redis0_def conv1_def)

lemma handler_GetConversation_failure:
  assumes "fst (GetConversation (messagingService h) (ctx_Param_id c)
                  (getUserIDFromContext h c) w) = Inl err"
    and "getUserIDFromContext h c \<noteq> []" and "ctx_Param_id c \<noteq> []"
  shows "fst (MessagingHandler_GetConversation h c w)
           = respondWithError 404 ''NOT_FOUND'' ''Conversation not found''"
  using assms
  by (cases "GetConversation (messagingService h) (ctx_Param_id c)
               (getUserIDFromContext h c) w")
     (simp add: MessagingHandler_GetConversation_def Let_def)

text \<open>
  Claim C1, as the code has it. Let no record of the requester be readable in the cache
  and let the store answer. Then \<^verbatim>\<open>GetConversation\<close> fails for an id without a row and
  fails for an id whose row has another owner, with two different errors: the store's
  wrapped "conversation not found" in the first case, "conversation not found or access
  denied" in the second. The HTTP handler answers both with the same response, so the
  two cases are indistinguishable to the client of the API, not to the caller of the
  service.
\<close>

theorem GetConversation_absent_and_foreign:
  fixes w :: "(database, redis) world"
  assumes no_hit_absent:
      "\<not> (case cache_view (kv w) absentID of None \<Rightarrow> False | Some c \<Rightarrow> conv_UserID c = userID)"
    and no_hit_foreign:
      "\<not> (case cache_view (kv w) foreignID of None \<Rightarrow> False | Some c \<Rightarrow> conv_UserID c = userID)"
    and reachable_absent: "db_fault (db w) (SelectConversation absentID) = None"
    and reachable_foreign: "db_fault (db w) (SelectConversation foreignID) = None"
    and absent: "find (\<lambda>r. conv_ID r = absentID) (tbl_conversations (db w)) = None"
    and foreign: "find (\<lambda>r. conv_ID r = foreignID) (tbl_conversations (db w)) = Some r"
    and other_owner: "conv_UserID r \<noteq> userID"
    and service: "messagingService h = redisService topic"
    and user: "getUserIDFromContext h ca = userID" "getUserIDFromContext h cf = userID"
      "userID \<noteq> []"
    and params: "ctx_Param_id ca = absentID" "ctx_Param_id cf = foreignID"
      "absentID \<noteq> []" "foreignID \<noteq> []"
  shows "fst (GetConversation (redisService topic) absentID userID w)
           = Inl ''failed to get conversation: conversation not found''
       \<and> fst (GetConversation (redisService topic) foreignID userID w)
           = Inl ''conversation not found or access denied''
       \<and> fst (MessagingHandler_GetConversation h ca w)
           = respondWithError 404 ''NOT_FOUND'' ''Conversation not found''
       \<and> fst (MessagingHandler_GetConversation h cf w)
           = fst (MessagingHandler_GetConversation h ca w)"
proof -
  have a: "fst (GetConversation (redisService topic) absentID userID w)
           = Inl ''failed to get conversation: conversation not found''"
    using no_hit_absent reachable_absent absent
    by (auto simp: GetConversation_redis_result split: option.splits)
  have f: "fst (GetConversation (redisService topic) foreignID userID w)
           = Inl ''conversation not found or access denied''"
    using no_hit_foreign reachable_foreign foreign other_owner
    by (auto simp: GetConversation_redis_result split: option.splits)
  have ha: "fst (MessagingHandler_GetConversation h ca w)
           = respondWithError 404 ''NOT_FOUND'' ''Conversation not found''"
    using a user params service handler_GetConversation_failure [of h ca w] by simp
  have hf: "fst (MessagingHandler_GetConversation h cf w)
           = respondWithError 404 ''NOT_FOUND'' ''Conversation not found''"
    using f user params service handler_GetConversation_failure [of h cf w] by simp
  from a f ha hf show ?thesis by simp
qed

theorem GetConversation_absent_and_foreign_witness:
  "fst (GetConversation (redisService ''events'') ''c9'' ''u2'' world0)
     = Inl ''failed to get conversation: conversation not found''
   \<and> fst (GetConversation (redisService ''events'') ''c1'' ''u2'' world0)
     = Inl ''conversation not found or access denied''
   \<and> fst (MessagingHandler_GetConversation handler0 (ctx_get ''token-u2'' ''c9'') world0)
     = respondWithError 404 ''NOT_FOUND'' ''Conversation not found''
   \<and> fst (MessagingHandler_GetConversation handler0 (ctx_get ''token-u2'' ''c1'') world0)
     = fst (MessagingHandler_GetConversation handler0 (ctx_get ''token-u2'' ''c9'') world0)"
proof -
  have cache: "cache_view (kv world0) ''c9'' = None" "cache_view (kv world0) ''c1'' = None"
    by (simp_all add: cache_view_def world0_def redis0_def)
  have store: "find (\<lambda>r. conv_ID r = ''c9'') (tbl_conversations (db world0)) = None"
      "find (\<lambda>r. conv_ID r = ''c1'') (tbl_conversations (db world0)) = Some conv1"
      "db_fault (db world0) (SelectConversation ''c9'') = None"
      "db_fault (db world0) (SelectConversation ''c1'') = None"
      "conv_UserID conv1 \<noteq> ''u2''"
    by (simp_all add: world0_def db0_def conv1_def)
  have user: "getUserIDFromContext handler0 (ctx_get ''token-u2'' ''c9'') = ''u2''"
      "getUserIDFromContext handler0 (ctx_get ''token-u2'' ''c1'') = ''u2''"
    by (simp_all add: getUserIDFromContext_def handler0_def jwt0_def ctx_get_def)
  show ?thesis
    using GetConversation_absent_and_foreign [where w = world0 and absentID = "''c9''"
        and userID = "''u2''" and foreignID = "''c1''" and r = conv1 and h = handler0
        and topic = "''events''" and ca = "ctx_get ''token-u2'' ''c9''"
        and cf = "ctx_get ''token-u2'' ''c1''"]
      cache store user
    by (simp add: handler0_def ctx_get_def)
qed

text \<open>
  The claim as stated fails: for the same requester, the error for an id without a row
  is not the error for an id whose row has another owner.
\<close>

theorem GetConversation_errors_differ:
  "fst (GetConversation (redisService ''events'') ''c9'' ''u2'' world0)
     = Inl ''failed to get conversation: conversation not found''
   \<and> fst (GetConversation (redisService ''events'') ''c1'' ''u2'' world0)
     = Inl ''conversation not found or access denied''
   \<and> fst (GetConversation (redisService ''events'') ''c9'' ''u2'' world0)
     \<noteq> fst (GetConversation (redisService ''events'') ''c1'' ''u2'' world0)"
  by (simp add: GetConversation_redis_result cache_view_def world0_def redis0_def db0_def
      conv1_def)

section \<open>Sending a message\<close>





section \<open>Errors of the cache\<close>

lemma GetConversation_without_hit:
  assumes miss: "\<not> usable_hit (fst (cache_GetConversation cs convID (kv w))) userID"
    and run: "GetConversation (s\<lparr>cacheService := Some cs\<rparr>) convID userID w = (res, w1)"
  shows "GetConversation (s\<lparr>cacheService := Some noOpCacheService\<rparr>) convID userID w
           = (res, w1\<lparr>kv := kv w\<rparr>)"
  using assms
  by (auto simp: GetConversation_def noOpCacheService_def usable_hit_def Let_def
      split: prod.splits option.splits sum.splits if_splits)

lemma UpdateConversationStatus_without_hit:
  assumes miss: "\<not> usable_hit (fst (cache_GetConversation cs convID (kv w))) userID"
    and run: "UpdateConversationStatus (s\<lparr>cacheService := Some cs\<rparr>) convID status userID w
                = (res, w1)"
  shows "UpdateConversationStatus (s\<lparr>cacheService := Some noOpCacheService\<rparr>) convID status
           userID w = (res, w1\<lparr>kv := kv w\<rparr>)"
proof -
  obtain g wg where
    g: "GetConversation (s\<lparr>cacheService := Some cs\<rparr>) convID userID w = (g, wg)"
    by (cases "GetConversation (s\<lparr>cacheService := Some cs\<rparr>) convID userID w")
  note g0 = GetConversation_without_hit [OF miss g]
  have k: "cache_DeleteConversation noOpCacheService = (\<lambda>convID r. (None, r))"
    by (simp add: noOpCacheService_def)
  show ?thesis
    using run
    by (auto simp: UpdateConversationStatus_def g g0 k time_Now_def logger_Info_def Let_def
        split: prod.splits option.splits sum.splits)
qed

text \<open>
  Claim C6, as the code has it. Take any cache: its get may return an error, nothing,
  or a record of another owner, and its set and delete may return what they like,
  errors included. As long as the get does not return a record of the requester,
  \<^verbatim>\<open>GetConversation\<close> and \<^verbatim>\<open>UpdateConversationStatus\<close> return what they return with the
  no-op cache and leave the same world but for the state of the cache: the same store,
  log and clock. No error of the cache reaches the caller.
\<close>

theorem cache_errors_same_as_no_cache:
  assumes miss: "\<not> usable_hit (fst (cache_GetConversation cs convID (kv w))) userID"
  shows "fst (GetConversation (s\<lparr>cacheService := Some cs\<rparr>) convID userID w)
           = fst (GetConversation (s\<lparr>cacheService := Some noOpCacheService\<rparr>) convID userID w)
       \<and> snd (GetConversation (s\<lparr>cacheService := Some noOpCacheService\<rparr>) convID userID w)
           = (snd (GetConversation (s\<lparr>cacheService := Some cs\<rparr>) convID userID w))
               \<lparr>kv := kv w\<rparr>
       \<and> fst (UpdateConversationStatus (s\<lparr>cacheService := Some cs\<rparr>) convID status userID w)
           = fst (UpdateConversationStatus (s\<lparr>cacheService := Some noOpCacheService\<rparr>)
                    convID status userID w)
       \<and> snd (UpdateConversationStatus (s\<lparr>cacheService := Some noOpCacheService\<rparr>)
                 convID status userID w)
           = (snd (UpdateConversationStatus (s\<lparr>cacheService := Some cs\<rparr>) convID status
                     userID w))\<lparr>kv := kv w\<rparr>"
proof -
  obtain g wg where
    g: "GetConversation (s\<lparr>cacheService := Some cs\<rparr>) convID userID w = (g, wg)"
    by (cases "GetConversation (s\<lparr>cacheService := Some cs\<rparr>) convID userID w")
  obtain u wu where
    u: "UpdateConversationStatus (s\<lparr>cacheService := Some cs\<rparr>) convID status userID w
          = (u, wu)"
    by (cases "UpdateConversationStatus (s\<lparr>cacheService := Some cs\<rparr>) convID status userID w")
  show ?thesis
    by (simp add: g u GetConversation_without_hit [OF miss g]
        UpdateConversationStatus_without_hit [OF miss u])
qed

theorem cache_errors_same_as_no_cache_witness:
  "\<not> usable_hit (fst (cache_GetConversation redisCacheService ''c1'' (kv world_cache_down)))
       ''u1''
   \<and> fst (cache_SetConversation redisCacheService conv1 (kv world_cache_down)) \<noteq> None
   \<and> fst (cache_DeleteConversation redisCacheService ''c1'' (kv world_cache_down)) \<noteq> None
   \<and> fst (GetConversation (redisService ''events'') ''c1'' ''u1'' world_cache_down) = Inr conv1
   \<and> fst (GetConversation (noCacheService ''events'') ''c1'' ''u1'' world_cache_down)
       = Inr conv1
   \<and> fst (UpdateConversationStatus (redisService ''events'') ''c1'' ''closed'' ''u1''
            world_cache_down) = None
   \<and> fst (UpdateConversationStatus (noCacheService ''events'') ''c1'' ''closed'' ''u1''
            world_cache_down) = None"
proof -
  have m: "\<not> usable_hit (fst (cache_GetConversation redisCacheService ''c1''
                                 (kv world_cache_down))) ''u1''"
    by (simp add: usable_hit_def svc_defs redis_defs world_cache_down_def world0_def
        redis0_def)
  have s: "(redisService ''events'')\<lparr>cacheService := Some redisCacheService\<rparr>
             = redisService ''events''"
      "(redisService ''events'')\<lparr>cacheService := Some noOpCacheService\<rparr>
             = noCacheService ''events''"
    by (simp_all add: redisService_def noCacheService_def NewMessagingService_def)
  have n: "fst (GetConversation (noCacheService ''events'') ''c1'' ''u1'' world_cache_down)
             = Inr conv1"
    by (simp add: GetConversation_def svc_defs Let_def
        postgresConversationRepository_GetByID_def db_exec_def world_cache_down_def
        world0_def db0_def redis0_def conv1_def)
  have u: "fst (UpdateConversationStatus (noCacheService ''events'') ''c1'' ''closed'' ''u1''
            world_cache_down) = None"
    by (simp add: UpdateConversationStatus_def GetConversation_def svc_defs Let_def
        time_Now_def logger_Info_def valid_channels_def valid_statuses_def
        postgresConversationRepository_GetByID_def postgresConversationRepository_Update_def
        db_exec_def world_cache_down_def world0_def db0_def redis0_def conv1_def)
  show ?thesis
    using cache_errors_same_as_no_cache [where cs = redisCacheService and convID = "''c1''"
        and w = world_cache_down and userID = "''u1''" and s = "redisService ''events''"
        and status = "''closed''", OF m] m n u
    by (simp add: s svc_defs redis_defs world_cache_down_def world0_def redis0_def)
qed

text \<open>
  The claim as stated fails for a cache that answers: the copy it holds is returned,
  whatever the store holds. Here the cached copy is active and the row is closed.
\<close>

theorem cache_hit_differs_from_no_cache:
  "fst (GetConversation (redisService ''events'') ''c1'' ''u1'' world_stale) = Inr conv1
   \<and> fst (GetConversation (noCacheService ''events'') ''c1'' ''u1'' world_stale)
       = Inr (conv1\<lparr>conv_Status := ''closed'', conv_UpdatedAt := 9\<rparr>)
   \<and> fst (GetConversation (redisService ''events'') ''c1'' ''u1'' world_stale)
       \<noteq> fst (GetConversation (noCacheService ''events'') ''c1'' ''u1'' world_stale)"
  by (simp add: GetConversation_def svc_defs redis_defs Let_def
      postgresConversationRepository_GetByID_def db_exec_def world_stale_def
      world0_def db0_def redis0_def conv1_def)

section \<open>Updating the status\<close>









section \<open>The event of a sent message\<close>

text \<open>
  Claim C5. Let the ownership check of \<^verbatim>\<open>SendMessage\<close> pass and the store accept the
  message that is built from the request, the next identity and the clock. Then, for
  every publisher, \<^verbatim>\<open>SendMessage\<close> returns that message; the state behind the
  publisher is what the publisher made, of the state that the ownership check left, of
  the event of type "message.received" that carries the conversation id and the whole
  message; and an error of the publisher is in the log and nowhere else.
\<close>

theorem SendMessage_publishes_and_succeeds:
  assumes owner: "GetConversation s (req_ConversationID req) (req_SenderID req) w = (Inr c, w1)"
    and message: "message = \<lparr>msg_ID = uuid_supply w1 (uuid_reads w1),
        msg_ConversationID = req_ConversationID req, msg_SenderType = req_SenderType req,
        msg_SenderID = req_SenderID req, msg_Content = req_Content req,
        msg_ContentType = req_ContentType req, msg_Metadata = req_Metadata req,
        msg_Timestamp = now_supply w1 (now_reads w1), msg_Attachments = []\<rparr>"
    and written: "fst (msgRepo_Create (messageRepo s) message (db w1)) = None"
    and publisher: "eventPublisher s = Some p"
    and event: "event = \<lparr>ev_Type = ''message.received'',
        ev_ConversationID = req_ConversationID req, ev_Message = message,
        ev_Timestamp = now_supply w1 (Suc (now_reads w1))\<rparr>"
  shows "fst (SendMessage s req w) = Inr message
       \<and> kv (snd (SendMessage s req w)) = snd (pub_PublishMessageEvent p event (kv w1))
       \<and> db (snd (SendMessage s req w)) = snd (msgRepo_Create (messageRepo s) message (db w1))
       \<and> logs (snd (SendMessage s req w)) =
           logs w1
           @ (case fst (pub_PublishMessageEvent p event (kv w1)) of
                None \<Rightarrow> []
              | Some err \<Rightarrow> [LogError ''Failed to publish message event'' err])
           @ [LogInfo ''Message sent''
                [(''message_id'', msg_ID message),
                 (''conversation_id'', msg_ConversationID message),
                 (''sender_id'', msg_SenderID message),
                 (''content_type'', msg_ContentType message)]]"
proof -
  obtain e d' where c: "msgRepo_Create (messageRepo s) message (db w1) = (e, d')"
    by (cases "msgRepo_Create (messageRepo s) message (db w1)")
  with written have e: "e = None" by simp
  obtain pe r' where p: "pub_PublishMessageEvent p event (kv w1) = (pe, r')"
    by (cases "pub_PublishMessageEvent p event (kv w1)")
  show ?thesis
    using owner publisher c [unfolded e message] p [unfolded event message]
    by (cases pe)
       (simp_all add: SendMessage_def uuid_New_def time_Now_def Let_def logger_Error_def
          logger_Info_def message event c e p)
qed

theorem SendMessage_publishes_and_succeeds_witness:
  "fst (GetConversation (redisService ''events'') ''c1'' ''u1'' world_pub_down) = Inr conv1
   \<and> fst (postgresMessageRepository_Create sent1 (db world_pub_down)) = None
   \<and> fst (redisEventPublisher_PublishMessageEvent ''events''
        \<lparr>ev_Type = ''message.received'', ev_ConversationID = ''c1'', ev_Message = sent1,
         ev_Timestamp = 21\<rparr> (kv world_pub_down)) = Some ''i/o timeout''
   \<and> fst (SendMessage (redisService ''events'') req1 world_pub_down) = Inr sent1
   \<and> logs (snd (SendMessage (redisService ''events'') req1 world_pub_down)) =
        [LogError ''Failed to publish message event'' ''i/o timeout'',
         LogInfo ''Message sent'' [(''message_id'', ''id-''), (''conversation_id'', ''c1''),
           (''sender_id'', ''u1''), (''content_type'', ''text'')]]
   \<and> fst (SendMessage (redisService ''events'') req1 world0) = Inr sent1
   \<and> published (kv (snd (SendMessage (redisService ''events'') req1 world0))) =
        [(''events'', \<lparr>ev_Type = ''message.received'', ev_ConversationID = ''c1'',
            ev_Message = sent1, ev_Timestamp = 21\<rparr>)]"
proof -
  let ?w1 = "snd (GetConversation (redisService ''events'') ''c1'' ''u1'' world_pub_down)"
  have g: "GetConversation (redisService ''events'') (req_ConversationID req1)
             (req_SenderID req1) world_pub_down = (Inr conv1, ?w1)"
    by (simp add: GetConversation_def svc_defs redis_defs Let_def req1_def
        postgresConversationRepository_GetByID_def db_exec_def world_pub_down_def
        world0_def db0_def redis0_def conv1_def)
  have w1: "uuid_supply ?w1 (uuid_reads ?w1) = ''id-''"
      "now_supply ?w1 (now_reads ?w1) = 20" "now_supply ?w1 (Suc (now_reads ?w1)) = 21"
      "logs ?w1 = []" "tbl_messages (db ?w1) = [msg1, msg2]"
      "tbl_conversations (db ?w1) = [conv1]" "db_fault (db ?w1) = (\<lambda>q. None)"
      "redis_fault (kv ?w1) (PUBLISH ''events'') = Some ''i/o timeout''"
    using GetConversation_redis_frame [OF g]
    by (simp_all add: world_pub_down_def world0_def db0_def redis0_def)
  have m: "sent1 = \<lparr>msg_ID = uuid_supply ?w1 (uuid_reads ?w1),
        msg_ConversationID = req_ConversationID req1, msg_SenderType = req_SenderType req1,
        msg_SenderID = req_SenderID req1, msg_Content = req_Content req1,
        msg_ContentType = req_ContentType req1, msg_Metadata = req_Metadata req1,
        msg_Timestamp = now_supply ?w1 (now_reads ?w1), msg_Attachments = []\<rparr>"
    by (simp add: w1 sent1_def req1_def)
  have c: "fst (msgRepo_Create (messageRepo (redisService ''events'')) sent1 (db ?w1)) = None"
    by (simp add: sel postgresMessageRepository_Create_def db_exec_def w1 sent1_def
        msg1_def msg2_def conv1_def valid_sender_types_def valid_content_types_def)
  have c0: "fst (postgresMessageRepository_Create sent1 (db world_pub_down)) = None"
    by (simp add: postgresMessageRepository_Create_def db_exec_def sent1_def
        world_pub_down_def world0_def db0_def
        msg1_def msg2_def conv1_def valid_sender_types_def valid_content_types_def)
  have e: "\<lparr>ev_Type = ''message.received'', ev_ConversationID = ''c1'', ev_Message = sent1,
         ev_Timestamp = 21\<rparr> = \<lparr>ev_Type = ''message.received'',
        ev_ConversationID = req_ConversationID req1, ev_Message = sent1,
        ev_Timestamp = now_supply ?w1 (Suc (now_reads ?w1))\<rparr>"
    by (simp add: w1 req1_def)
  have p1: "fst (redisEventPublisher_PublishMessageEvent ''events''
        \<lparr>ev_Type = ''message.received'', ev_ConversationID = ''c1'', ev_Message = sent1,
         ev_Timestamp = 21\<rparr> (kv ?w1)) = Some ''i/o timeout''"
    by (simp add: redisEventPublisher_PublishMessageEvent_def redis_exec_def w1)
  have p2: "fst (redisEventPublisher_PublishMessageEvent ''events''
        \<lparr>ev_Type = ''message.received'', ev_ConversationID = ''c1'', ev_Message = sent1,
         ev_Timestamp = 21\<rparr> (kv world_pub_down)) = Some ''i/o timeout''"
    by (simp add: redisEventPublisher_PublishMessageEvent_def redis_exec_def
        world_pub_down_def world0_def redis0_def)
  have ok: "fst (SendMessage (redisService ''events'') req1 world0) = Inr sent1
   \<and> published (kv (snd (SendMessage (redisService ''events'') req1 world0))) =
        [(''events'', \<lparr>ev_Type = ''message.received'', ev_ConversationID = ''c1'',
            ev_Message = sent1, ev_Timestamp = 21\<rparr>)]"
    by (simp add: SendMessage_def GetConversation_def svc_defs redis_defs Let_def req1_def
        uuid_New_def time_Now_def logger_Info_def logger_Error_def
        postgresConversationRepository_GetByID_def postgresMessageRepository_Create_def
        redisEventPublisher_PublishMessageEvent_def db_exec_def
        valid_sender_types_def valid_content_types_def sent1_def msg1_def msg2_def
        world0_def db0_def redis0_def conv1_def)
  have g': "fst (GetConversation (redisService ''events'') ''c1'' ''u1'' world_pub_down)
              = Inr conv1"
    using arg_cong [OF g, of fst] by (simp add: req1_def)
  note sent = SendMessage_publishes_and_succeeds [OF g m c redisService_sel(4) e]
  have s1: "fst (SendMessage (redisService ''events'') req1 world_pub_down) = Inr sent1"
    using sent by simp
  have l1: "logs (snd (SendMessage (redisService ''events'') req1 world_pub_down)) =
        [LogError ''Failed to publish message event'' ''i/o timeout'',
         LogInfo ''Message sent'' [(''message_id'', ''id-''), (''conversation_id'', ''c1''),
           (''sender_id'', ''u1''), (''content_type'', ''text'')]]"
    using sent p1 by (simp add: w1 sel sent1_def)
  show ?thesis
    by (intro conjI g' c0 p2 s1 l1 conjunct1 [OF ok] conjunct2 [OF ok])
qed

section \<open>Reading messages and attachments\<close>

lemma same_data_refl: "same_data d d"
  by (simp add: same_data_def)

lemma same_data_trans: "same_data a b \<Longrightarrow> same_data b c \<Longrightarrow> same_data a c"
  by (simp add: same_data_def)

lemma select_same_data:
  "same_data d (snd (postgresAttachmentRepository_GetByMessageID mid d))"
  "same_data d (snd (postgresAttachmentRepository_GetByID aid d))"
  "same_data d (snd (postgresMessageRepository_GetByID mid d))"
  "same_data d (snd (postgresMessageRepository_GetByConversationID cid pagination d))"
  "same_data d (snd (postgresConversationRepository_GetByID cid d))"
  by (auto simp: same_data_def db_exec_def Let_def
      postgresAttachmentRepository_GetByMessageID_def postgresAttachmentRepository_GetByID_def
      postgresMessageRepository_GetByID_def postgresMessageRepository_GetByConversationID_def
      postgresConversationRepository_GetByID_def
      split: option.splits)

lemma select_cong:
  assumes "same_data d d'"
  shows "fst (postgresAttachmentRepository_GetByMessageID mid d')
           = fst (postgresAttachmentRepository_GetByMessageID mid d)"
    and "fst (postgresAttachmentRepository_GetByID aid d')
           = fst (postgresAttachmentRepository_GetByID aid d)"
    and "fst (postgresMessageRepository_GetByID mid d')
           = fst (postgresMessageRepository_GetByID mid d)"
    and "fst (postgresMessageRepository_GetByConversationID cid pagination d')
           = fst (postgresMessageRepository_GetByConversationID cid pagination d)"
  using assms
  by (auto simp: same_data_def db_exec_def Let_def
      postgresAttachmentRepository_GetByMessageID_def postgresAttachmentRepository_GetByID_def
      postgresMessageRepository_GetByID_def postgresMessageRepository_GetByConversationID_def
      split: option.splits)

lemma GetConversation_redis_same_data:
  fixes w :: "(database, redis) world"
  shows "same_data (db w) (db (snd (GetConversation (redisService topic) convID userID w)))"
  using GetConversation_redis_frame [of topic convID userID w
      "fst (GetConversation (redisService topic) convID userID w)"
      "snd (GetConversation (redisService topic) convID userID w)"]
  by (simp add: same_data_def)


lemma loadAttachments_redis:
  fixes w :: "(database, redis) world"
  shows "fst (loadAttachments (redisService topic) ms w) =
           map (\<lambda>m. case fst (postgresAttachmentRepository_GetByMessageID (msg_ID m) (db w)) of
                      Inl err \<Rightarrow> m
                    | Inr attachments \<Rightarrow> m\<lparr>msg_Attachments := attachments\<rparr>) ms"
proof (induction ms arbitrary: w)
  case Nil
  show ?case by simp
next
  case (Cons m ms)
  obtain res d' where
    q: "postgresAttachmentRepository_GetByMessageID (msg_ID m) (db w) = (res, d')"
    by (cases "postgresAttachmentRepository_GetByMessageID (msg_ID m) (db w)")
  have sd: "same_data (db w) d'"
    using select_same_data(1) [of "db w" "msg_ID m"] q by simp
  have tail: "\<And>w1 :: (database, redis) world. db w1 = d' \<Longrightarrow>
      fst (loadAttachments (redisService topic) ms w1) =
        map (\<lambda>m. case fst (postgresAttachmentRepository_GetByMessageID (msg_ID m) (db w)) of
                   Inl err \<Rightarrow> m
                 | Inr attachments \<Rightarrow> m\<lparr>msg_Attachments := attachments\<rparr>) ms"
    using Cons.IH select_cong(1) [OF sd] by simp
  show ?case
    using q
    by (cases res) (simp_all add: sel logger_Error_def case_prod_beta tail)
qed

lemma select_statements:
  "statements (snd (postgresAttachmentRepository_GetByMessageID mid d))
     = statements d @ [SelectAttachments mid]"
  "statements (snd (postgresMessageRepository_GetByConversationID cid pagination d))
     = statements d @ [SelectMessages cid]"
  by (auto simp: db_exec_def Let_def postgresAttachmentRepository_GetByMessageID_def
      postgresMessageRepository_GetByConversationID_def split: option.splits)

lemma loadAttachments_redis_statements:
  fixes w :: "(database, redis) world"
  shows "statements (db (snd (loadAttachments (redisService topic) ms w)))
           = statements (db w) @ map (\<lambda>m. SelectAttachments (msg_ID m)) ms"
proof (induction ms arbitrary: w)
  case Nil
  show ?case by simp
next
  case (Cons m ms)
  obtain res d' where
    q: "postgresAttachmentRepository_GetByMessageID (msg_ID m) (db w) = (res, d')"
    by (cases "postgresAttachmentRepository_GetByMessageID (msg_ID m) (db w)")
  have st: "statements d' = statements (db w) @ [SelectAttachments (msg_ID m)]"
    using select_statements(1) [of "msg_ID m" "db w"] q by simp
  show ?case
    using q st
    by (cases res) (simp_all add: sel logger_Error_def case_prod_beta Cons.IH)
qed

lemma rows_without_attachments:
  assumes "fst (postgresMessageRepository_GetByConversationID cid pagination d) = Inr page"
  shows "\<forall>m \<in> set page. msg_Attachments m = []"
  using assms
  by (auto simp: postgresMessageRepository_GetByConversationID_def db_exec_def Let_def
      split: option.splits)

lemma GetMessages_denied:
  assumes "GetConversation s conversationID userID w = (Inl err, w1)"
  shows "GetMessages s conversationID userID pagination w = (Inl err, w1)"
  using assms by (simp add: GetMessages_def)

text \<open>
  Claim C7. \<^verbatim>\<open>GetMessages\<close> checks the ownership first: for a user whose check fails it
  returns the error of the check and stops there, with no statement on the messages
  issued. For the owner, when the store returns a page, every message of the page is
  returned, in order: a message whose attachments fail to load comes with an empty
  attachment list, every other message with its attachments. A failing load never
  aborts the page: after the statements of the ownership check come the query of the
  page and one query of attachments for each message of the page.
\<close>

theorem GetMessages_keeps_page:
  fixes w :: "(database, redis) world"
  assumes owner: "fst (GetConversation (redisService topic) conversationID userID w) = Inr c"
    and page: "fst (postgresMessageRepository_GetByConversationID conversationID pagination
                      (db w)) = Inr page"
    and stranger: "fst (GetConversation (redisService topic) conversationID other w) = Inl err"
  shows "fst (GetMessages (redisService topic) conversationID userID pagination w) =
           Inr (map (\<lambda>m. case fst (postgresAttachmentRepository_GetByMessageID (msg_ID m)
                                      (db w)) of
                           Inl err \<Rightarrow> m\<lparr>msg_Attachments := []\<rparr>
                         | Inr attachments \<Rightarrow> m\<lparr>msg_Attachments := attachments\<rparr>) page)
       \<and> statements (db (snd (GetMessages (redisService topic) conversationID userID
                                 pagination w)))
           = statements (db (snd (GetConversation (redisService topic) conversationID userID w)))
             @ SelectMessages conversationID # map (\<lambda>m. SelectAttachments (msg_ID m)) page
       \<and> GetMessages (redisService topic) conversationID other pagination w
           = (Inl err, snd (GetConversation (redisService topic) conversationID other w))
       \<and> SelectMessages conversationID \<notin> set (statements
            (db (snd (GetMessages (redisService topic) conversationID other pagination w))))
              - set (statements (db w))"
proof -
  obtain w1 where g: "GetConversation (redisService topic) conversationID userID w = (Inr c, w1)"
    using owner by (cases "GetConversation (redisService topic) conversationID userID w") simp
  have sd: "same_data (db w) (db w1)"
    using GetConversation_redis_same_data [of w topic conversationID userID] g by simp
  obtain d2 where
    q: "postgresMessageRepository_GetByConversationID conversationID pagination (db w1)
          = (Inr page, d2)"
    using page select_cong(4) [OF sd, of conversationID pagination]
    by (cases "postgresMessageRepository_GetByConversationID conversationID pagination (db w1)")
       simp
  have sd2: "same_data (db w) d2"
    using same_data_trans [OF sd] select_same_data(4) [of "db w1" conversationID pagination] q
    by simp
  have empty: "\<forall>m \<in> set page. msg_Attachments m = []"
    using rows_without_attachments page by blast
  have "fst (GetMessages (redisService topic) conversationID userID pagination w) =
      Inr (fst (loadAttachments (redisService topic) page (w1\<lparr>db := d2\<rparr>)))"
    by (simp add: GetMessages_def g q sel case_prod_beta)
  also have "fst (loadAttachments (redisService topic) page (w1\<lparr>db := d2\<rparr>)) =
      map (\<lambda>m. case fst (postgresAttachmentRepository_GetByMessageID (msg_ID m) (db w)) of
                 Inl err \<Rightarrow> m
               | Inr attachments \<Rightarrow> m\<lparr>msg_Attachments := attachments\<rparr>) page"
    by (simp add: loadAttachments_redis select_cong(1) [OF sd2])
  also have "\<dots> =
      map (\<lambda>m. case fst (postgresAttachmentRepository_GetByMessageID (msg_ID m) (db w)) of
                 Inl err \<Rightarrow> m\<lparr>msg_Attachments := []\<rparr>
               | Inr attachments \<Rightarrow> m\<lparr>msg_Attachments := attachments\<rparr>) page"
    using empty by (auto split: sum.splits)
  finally have 1: "fst (GetMessages (redisService topic) conversationID userID pagination w) =
      Inr (map (\<lambda>m. case fst (postgresAttachmentRepository_GetByMessageID (msg_ID m) (db w)) of
                 Inl err \<Rightarrow> m\<lparr>msg_Attachments := []\<rparr>
               | Inr attachments \<Rightarrow> m\<lparr>msg_Attachments := attachments\<rparr>) page)" .
  have st: "statements d2 = statements (db w1) @ [SelectMessages conversationID]"
    using select_statements(2) [of conversationID pagination "db w1"] q by simp
  have 4: "statements (db (snd (GetMessages (redisService topic) conversationID userID
                                 pagination w)))
           = statements (db w1)
             @ SelectMessages conversationID # map (\<lambda>m. SelectAttachments (msg_ID m)) page"
    by (simp add: GetMessages_def g q sel case_prod_beta loadAttachments_redis_statements st)
  obtain wo where
    o: "GetConversation (redisService topic) conversationID other w = (Inl err, wo)"
    using stranger
    by (cases "GetConversation (redisService topic) conversationID other w") simp
  have 2: "GetMessages (redisService topic) conversationID other pagination w = (Inl err, wo)"
    using o by (rule GetMessages_denied)
  have 3: "SelectMessages conversationID \<notin> set (statements (db wo)) - set (statements (db w))"
    using GetConversation_redis_issued [OF o] by auto
  show ?thesis using 1 2 3 4 o g by simp
qed

theorem GetMessages_keeps_page_witness:
  "fst (GetConversation (redisService ''events'') ''c1'' ''u1'' world_att_down) = Inr conv1
   \<and> fst (postgresMessageRepository_GetByConversationID ''c1'' page0 (db world_att_down))
       = Inr [msg2, msg1]
   \<and> fst (GetConversation (redisService ''events'') ''c1'' ''u2'' world_att_down)
       = Inl ''conversation not found or access denied''
   \<and> fst (postgresAttachmentRepository_GetByMessageID ''m1'' (db world_att_down))
       = Inl ''failed to get attachments: driver: bad connection''
   \<and> fst (GetMessages (redisService ''events'') ''c1'' ''u1'' page0 world_att_down)
       = Inr [msg2\<lparr>msg_Attachments := [att2]\<rparr>, msg1]
   \<and> statements (db (snd (GetMessages (redisService ''events'') ''c1'' ''u1'' page0
        world_att_down)))
       = [SelectConversation ''c1'', SelectMessages ''c1'', SelectAttachments ''m2'',
          SelectAttachments ''m1'']
   \<and> fst (GetMessages (redisService ''events'') ''c1'' ''u2'' page0 world_att_down)
       = Inl ''conversation not found or access denied''"
proof -
  have g1: "fst (GetConversation (redisService ''events'') ''c1'' ''u1'' world_att_down)
              = Inr conv1"
    and g2: "fst (GetConversation (redisService ''events'') ''c1'' ''u2'' world_att_down)
              = Inl ''conversation not found or access denied''"
    by (simp_all add: GetConversation_redis_result cache_view_def world_att_down_def
        world0_def redis0_def db0_def conv1_def)
  have p: "fst (postgresMessageRepository_GetByConversationID ''c1'' page0 (db world_att_down))
       = Inr [msg2, msg1]"
    by (simp add: postgresMessageRepository_GetByConversationID_def db_exec_def Let_def
        page0_def world_att_down_def world0_def db0_def msg1_def msg2_def)
  have a1: "fst (postgresAttachmentRepository_GetByMessageID ''m1'' (db world_att_down))
       = Inl ''failed to get attachments: driver: bad connection''"
    and a2: "fst (postgresAttachmentRepository_GetByMessageID ''m2'' (db world_att_down))
       = Inr [att2]"
    by (simp_all add: postgresAttachmentRepository_GetByMessageID_def db_exec_def
        world_att_down_def world0_def db0_def att1_def att2_def)
  have ids: "msg_ID msg1 = ''m1''" "msg_ID msg2 = ''m2''"
      "msg1\<lparr>msg_Attachments := []\<rparr> = msg1"
    by (simp_all add: msg1_def msg2_def)
  have s: "statements (db (snd (GetConversation (redisService ''events'') ''c1'' ''u1''
        world_att_down))) = [SelectConversation ''c1'']"
    by (simp add: GetConversation_def svc_defs redis_defs Let_def
        postgresConversationRepository_GetByID_def db_exec_def world_att_down_def
        world0_def db0_def redis0_def conv1_def)
  show ?thesis
    using GetMessages_keeps_page [OF g1 p g2] g1 g2 p a1 a2 s
    by (simp add: ids)
qed





section \<open>The HTTP handler of SendMessage\<close>







section \<open>The cache of message pages\<close>

lemma GetConversation_messages_fields:
  "GetConversation (s\<lparr>cacheService := Some (cs\<lparr>cache_GetMessages := gm,
       cache_SetMessages := sm, cache_DeleteMessages := dm\<rparr>)\<rparr>) convID userID w
     = GetConversation (s\<lparr>cacheService := Some cs\<rparr>) convID userID w"
  by (simp add: GetConversation_def
      cong: prod.case_cong sum.case_cong option.case_cong if_cong)

lemma loadAttachments_cong:
  "attachmentRepo s' = attachmentRepo s \<Longrightarrow> loadAttachments s' ms w = loadAttachments s ms w"
  by (induction ms arbitrary: w) (simp_all split: prod.splits sum.splits)

lemma loadAttachments_kv: "kv (snd (loadAttachments s ms w)) = kv w"
  by (induction ms arbitrary: w)
     (simp_all add: logger_Error_def case_prod_beta split: prod.splits sum.splits)

lemma messages_cache_same_refl: "messages_cache_same r r k"
  by (simp add: messages_cache_same_def)

lemma GetConversation_redis_messages_cache:
  fixes w :: "(database, redis) world"
  shows "messages_cache_same (kv w)
           (kv (snd (GetConversation (redisService topic) convID userID w))) k"
proof -
  obtain g w1 where g: "GetConversation (redisService topic) convID userID w = (g, w1)"
    by (cases "GetConversation (redisService topic) convID userID w")
  have k: "keyspace (kv w1) (''messages:'' @ k) = keyspace (kv w) (''messages:'' @ k)"
    using GetConversation_redis_keyspace [OF g]
    by (auto split: sum.splits option.splits if_splits)
  have c: "filter on_messages_key (commands (kv w1)) = filter on_messages_key (commands (kv w))"
    using GetConversation_redis_issued [OF g]
    by (auto simp: on_messages_key_def)
  show ?thesis using k c by (simp add: g messages_cache_same_def)
qed

lemma SendMessage_redis_messages_cache:
  fixes w :: "(database, redis) world"
  shows "messages_cache_same (kv w) (kv (snd (SendMessage (redisService topic) req w))) k"
proof -
  obtain g w1 where
    g: "GetConversation (redisService topic) (req_ConversationID req) (req_SenderID req) w
          = (g, w1)"
    by (cases "GetConversation (redisService topic) (req_ConversationID req)
                 (req_SenderID req) w")
  have m: "messages_cache_same (kv w) (kv w1) k"
    using GetConversation_redis_messages_cache [of w topic "req_ConversationID req"
        "req_SenderID req" k] g by simp
  show ?thesis
    using m
    by (cases g)
       (auto simp: SendMessage_def g sel uuid_New_def time_Now_def Let_def logger_Error_def
          logger_Info_def redisEventPublisher_PublishMessageEvent_def redis_exec_def
          messages_cache_same_def on_messages_key_def
          split: option.splits prod.splits)
qed

lemma GetMessages_redis_messages_cache:
  fixes w :: "(database, redis) world"
  shows "messages_cache_same (kv w)
           (kv (snd (GetMessages (redisService topic) conversationID userID pagination w))) k"
proof -
  obtain g w1 where
    g: "GetConversation (redisService topic) conversationID userID w = (g, w1)"
    by (cases "GetConversation (redisService topic) conversationID userID w")
  have m: "messages_cache_same (kv w) (kv w1) k"
    using GetConversation_redis_messages_cache [of w topic conversationID userID k] g by simp
  show ?thesis
    using m
    by (cases g)
       (auto simp: GetMessages_def g loadAttachments_kv case_prod_beta
          split: prod.splits sum.splits)
qed

lemma GetMessage_redis_messages_cache:
  fixes w :: "(database, redis) world"
  shows "messages_cache_same (kv w)
           (kv (snd (GetMessage (redisService topic) messageID userID w))) k"
proof (cases "msgRepo_GetByID (messageRepo (redisService topic)) messageID (db w)")
  case (Pair res d1)
  show ?thesis
  proof (cases res)
    case (Inl err)
    then show ?thesis
      using Pair by (simp add: GetMessage_def messages_cache_same_refl)
  next
    case (Inr message)
    obtain g w1 where
      g: "GetConversation (redisService topic) (msg_ConversationID message) userID
            (w\<lparr>db := d1\<rparr>) = (g, w1)"
      by (cases "GetConversation (redisService topic) (msg_ConversationID message) userID
                   (w\<lparr>db := d1\<rparr>)")
    have m: "messages_cache_same (kv w) (kv w1) k"
      using GetConversation_redis_messages_cache [of "w\<lparr>db := d1\<rparr>" topic
          "msg_ConversationID message" userID k] g by simp
    show ?thesis
      using m Pair Inr
      by (cases g)
         (auto simp: GetMessage_def g logger_Error_def split: prod.splits sum.splits)
  qed
qed

text \<open>
  Claim C10. \<^verbatim>\<open>SendMessage\<close>, \<^verbatim>\<open>GetMessages\<close> and \<^verbatim>\<open>GetMessage\<close> never call the cache's
  \<^verbatim>\<open>GetMessages\<close>, \<^verbatim>\<open>SetMessages\<close> or \<^verbatim>\<open>DeleteMessages\<close>: with any cache, replacing these
  three functions by any others changes neither the result nor the world. On Redis,
  the three operations issue no command on a key of the message pages and leave the
  value under the message-page key of every conversation as it is.
\<close>

theorem message_pages_never_cached:
  fixes w :: "('d, 'r) world" and rw :: "(database, redis) world"
  shows "SendMessage (s\<lparr>cacheService := Some (cs\<lparr>cache_GetMessages := gm,
             cache_SetMessages := sm, cache_DeleteMessages := dm\<rparr>)\<rparr>) req w
           = SendMessage (s\<lparr>cacheService := Some cs\<rparr>) req w
       \<and> GetMessages (s\<lparr>cacheService := Some (cs\<lparr>cache_GetMessages := gm,
             cache_SetMessages := sm, cache_DeleteMessages := dm\<rparr>)\<rparr>)
             conversationID userID pagination w
           = GetMessages (s\<lparr>cacheService := Some cs\<rparr>) conversationID userID pagination w
       \<and> GetMessage (s\<lparr>cacheService := Some (cs\<lparr>cache_GetMessages := gm,
             cache_SetMessages := sm, cache_DeleteMessages := dm\<rparr>)\<rparr>) messageID userID w
           = GetMessage (s\<lparr>cacheService := Some cs\<rparr>) messageID userID w
       \<and> messages_cache_same (kv rw) (kv (snd (SendMessage (redisService topic) req rw))) k
       \<and> messages_cache_same (kv rw)
            (kv (snd (GetMessages (redisService topic) conversationID userID pagination rw))) k
       \<and> messages_cache_same (kv rw)
            (kv (snd (GetMessage (redisService topic) messageID userID rw))) k"
proof -
  let ?s' = "s\<lparr>cacheService := Some (cs\<lparr>cache_GetMessages := gm,
             cache_SetMessages := sm, cache_DeleteMessages := dm\<rparr>)\<rparr>"
  let ?s = "s\<lparr>cacheService := Some cs\<rparr>"
  have l: "\<And>ms v. loadAttachments ?s' ms v = loadAttachments ?s ms v"
    by (rule loadAttachments_cong) simp
  have 1: "SendMessage ?s' req w = SendMessage ?s req w"
    by (simp add: SendMessage_def GetConversation_messages_fields
        cong: prod.case_cong sum.case_cong option.case_cong if_cong)
  have 2: "GetMessages ?s' conversationID userID pagination w
             = GetMessages ?s conversationID userID pagination w"
    by (simp add: GetMessages_def GetConversation_messages_fields l
        cong: prod.case_cong sum.case_cong option.case_cong if_cong)
  have 3: "GetMessage ?s' messageID userID w = GetMessage ?s messageID userID w"
    by (simp add: GetMessage_def GetConversation_messages_fields
        cong: prod.case_cong sum.case_cong option.case_cong if_cong)
  show ?thesis
    using 1 2 3 SendMessage_redis_messages_cache [of rw topic req k]
      GetMessages_redis_messages_cache [of rw topic conversationID userID pagination k]
      GetMessage_redis_messages_cache [of rw topic messageID userID k]
    by simp
qed

theorem message_pages_never_cached_witness:
  "commands (kv (snd (SendMessage (redisService ''events'') req1 world0)))
     = [GET ''conversation:c1'', SET ''conversation:c1'', PUBLISH ''events'']
   \<and> messages_cache_same (kv world0)
        (kv (snd (SendMessage (redisService ''events'') req1 world0))) ''c1''
   \<and> messages_cache_same (kv world0)
        (kv (snd (GetMessages (redisService ''events'') ''c1'' ''u1'' page0 world0))) ''c1''
   \<and> messages_cache_same (kv world0)
        (kv (snd (GetMessage (redisService ''events'') ''m1'' ''u1'' world0))) ''c1''"
proof -
  have c: "commands (kv (snd (SendMessage (redisService ''events'') req1 world0)))
     = [GET ''conversation:c1'', SET ''conversation:c1'', PUBLISH ''events'']"
    by (simp add: SendMessage_def GetConversation_def svc_defs redis_defs Let_def req1_def
        uuid_New_def time_Now_def logger_Info_def logger_Error_def
        postgresConversationRepository_GetByID_def postgresMessageRepository_Create_def
        redisEventPublisher_PublishMessageEvent_def db_exec_def
        valid_sender_types_def valid_content_types_def msg1_def msg2_def
        world0_def db0_def redis0_def conv1_def)
  show ?thesis
    using message_pages_never_cached [where rw = world0 and topic = "''events''"
        and req = req1 and conversationID = "''c1''" and userID = "''u1''"
        and pagination = page0 and messageID = "''m1''"
        and w = world0 and s = "redisService ''events''" and cs = redisCacheService
        and gm = redisCacheService_GetMessages and sm = redisCacheService_SetMessages
        and dm = redisCacheService_DeleteMessages and k = "''c1''"] c
    by simp
qed

end
